theory Spec2Isabelle
  imports Complex_Main "HOL-Library.AList"
begin

section \<open>Learner-profile engine: shallow embedding\<close>

text \<open>
  The Python sources are embedded function by function. Python floats are read as exact
  reals, ISO timestamps as strings handed in by the caller (the clock is not modelled),
  dictionaries as maps or association lists, and every exception as a value.
\<close>

type_synonym timestamp = string

subsection \<open>advanced\_personalization\_agent.py: track\_learning\_progress\<close>

text \<open>
  \<^verbatim>\<open>interaction_data\<close> is the dictionary handed to \<^verbatim>\<open>track_learning_progress\<close>; a key
  that is absent is \<open>None\<close>. The function stamps it with the current time.
\<close>

record interaction_data =
  topic :: "string option"
  success_rate :: "real option"
  stamp :: "timestamp option"

record knowledge_area =
  proficiency :: real
  interactions :: int
  last_practiced :: timestamp

text \<open>
  The part of the advanced profile that \<^verbatim>\<open>track_learning_progress\<close> reads and writes:
  \<^verbatim>\<open>knowledge_areas\<close>, \<^verbatim>\<open>learning_history\<close> and
  \<^verbatim>\<open>skill_progression.learning_velocity\<close>.
\<close>

record advanced_profile =
  knowledge_areas :: "string \<rightharpoonup> knowledge_area"
  learning_history :: "interaction_data list"
  learning_velocity :: real

definition default_profile :: advanced_profile where
  "default_profile =
     \<lparr>knowledge_areas = Map.empty, learning_history = [], learning_velocity = 0.5\<rparr>"

text \<open>\<^verbatim>\<open>interaction_data.get('topic', '')\<close> and \<^verbatim>\<open>interaction_data.get('success_rate', 0.5)\<close>.\<close>

definition get_topic :: "interaction_data \<Rightarrow> string" where
  "get_topic d = (case topic d of None \<Rightarrow> [] | Some t \<Rightarrow> t)"

definition get_success_rate :: "interaction_data \<Rightarrow> real" where
  "get_success_rate d = (case success_rate d of None \<Rightarrow> 0.5 | Some s \<Rightarrow> s)"

definition learning_rate :: real where
  "learning_rate = 0.1"

text \<open>The dictionary stored for a topic that is not yet in \<^verbatim>\<open>knowledge_areas\<close>.\<close>

definition new_area :: "timestamp \<Rightarrow> knowledge_area" where
  "new_area now = \<lparr>proficiency = 0.1, interactions = 0, last_practiced = now\<rparr>"

text \<open>
  \<^verbatim>\<open>area['interactions'] += 1\<close>, \<^verbatim>\<open>area['last_practiced'] = now\<close>,
  \<^verbatim>\<open>area['proficiency'] = min(1.0, current_proficiency + (success_rate * learning_rate))\<close>.
\<close>

definition update_area :: "timestamp \<Rightarrow> real \<Rightarrow> knowledge_area \<Rightarrow> knowledge_area" where
  "update_area now s a =
     a\<lparr>interactions := interactions a + 1,
       last_practiced := now,
       proficiency := min 1 (proficiency a + s * learning_rate)\<rparr>"

text \<open>The Python slice \<^verbatim>\<open>xs[-n:]\<close> for \<open>n > 0\<close>: the last \<open>n\<close> elements, or all of them.\<close>

definition last_n :: "nat \<Rightarrow> 'a list \<Rightarrow> 'a list" where
  "last_n n xs = drop (length xs - n) xs"

definition track_areas ::
  "timestamp \<Rightarrow> interaction_data \<Rightarrow> (string \<rightharpoonup> knowledge_area) \<Rightarrow> (string \<rightharpoonup> knowledge_area)" where
  "track_areas now d areas =
     (let t = get_topic d; s = get_success_rate d in
      if t \<noteq> [] then
        (let area = (case areas t of None \<Rightarrow> new_area now | Some a \<Rightarrow> a)
         in areas(t \<mapsto> update_area now s area))
      else areas)"

definition track_velocity :: "interaction_data list \<Rightarrow> real \<Rightarrow> real" where
  "track_velocity history v =
     (let recent_interactions = last_n 10 history in
      if 5 \<le> length recent_interactions
      then sum_list (map get_success_rate recent_interactions) / real (length recent_interactions)
      else v)"

text \<open>The body of \<^verbatim>\<open>track_learning_progress\<close> between loading and saving the profile.\<close>

definition track_profile :: "timestamp \<Rightarrow> interaction_data \<Rightarrow> advanced_profile \<Rightarrow> advanced_profile" where
  "track_profile now d0 p =
     (let d = d0\<lparr>stamp := Some now\<rparr>;
          history = learning_history p @ [d]
      in p\<lparr>learning_history := history,
            knowledge_areas := track_areas now d (knowledge_areas p),
            learning_velocity := track_velocity history (learning_velocity p)\<rparr>)"

text \<open>
  The profile files, one per user id. \<^verbatim>\<open>get_advanced_user_profile\<close> returns the stored
  profile, or the default one when there is no file; \<^verbatim>\<open>_save_advanced_profile\<close> logs a
  failed write and goes on. A call carries what became of its write: the profile was
  written; the file could not be opened and is as before; or the file was opened, which
  empties it, and not written to the end. A file that does not parse is answered by
  \<^verbatim>\<open>get_advanced_user_profile\<close> with the default profile, as a missing one is, so such a
  file counts as missing.
\<close>

datatype write_result = Written | NotOpened | Truncated

type_synonym profile_store = "string \<rightharpoonup> advanced_profile"

definition get_advanced_user_profile :: "profile_store \<Rightarrow> string \<Rightarrow> advanced_profile" where
  "get_advanced_user_profile store user_id =
     (case store user_id of None \<Rightarrow> default_profile | Some p \<Rightarrow> p)"

definition save_advanced_profile ::
  "write_result \<Rightarrow> profile_store \<Rightarrow> string \<Rightarrow> advanced_profile \<Rightarrow> profile_store" where
  "save_advanced_profile written store user_id p =
     (case written of
        Written \<Rightarrow> store(user_id \<mapsto> p)
      | NotOpened \<Rightarrow> store
      | Truncated \<Rightarrow> store(user_id := None))"

record track_call =
  call_user :: string
  call_now :: timestamp
  call_data :: interaction_data
  call_write :: write_result

definition track_learning_progress ::
  "profile_store \<Rightarrow> track_call \<Rightarrow> advanced_profile \<times> profile_store" where
  "track_learning_progress store c =
     (let profile = track_profile (call_now c) (call_data c)
                      (get_advanced_user_profile store (call_user c))
      in (profile, save_advanced_profile (call_write c) store (call_user c) profile))"

text \<open>A sequence of calls: the profiles returned, in order, and the store at the end.\<close>

fun track_calls :: "profile_store \<Rightarrow> track_call list \<Rightarrow> advanced_profile list \<times> profile_store" where
  "track_calls store [] = ([], store)"
| "track_calls store (c # cs) =
     (let (p, store') = track_learning_progress store c;
          (ps, store'') = track_calls store' cs
      in (p # ps, store''))"


definition proficiency_ok :: "advanced_profile \<Rightarrow> bool" where
  "proficiency_ok p \<longleftrightarrow>
     (\<forall>t a. knowledge_areas p t = Some a \<longrightarrow> 0 \<le> proficiency a \<and> proficiency a \<le> 1)"

definition store_ok :: "profile_store \<Rightarrow> bool" where
  "store_ok store \<longleftrightarrow> (\<forall>u p. store u = Some p \<longrightarrow> proficiency_ok p)"

definition rate_in_unit :: "interaction_data \<Rightarrow> bool" where
  "rate_in_unit d \<longleftrightarrow> (case success_rate d of None \<Rightarrow> True | Some s \<Rightarrow> 0 \<le> s \<and> s \<le> 1)"

text \<open>A stored profile close to the cap, and a call with full marks on its topic.\<close>

definition near_top :: advanced_profile where
  "near_top =
     \<lparr>knowledge_areas = [''loops'' \<mapsto> \<lparr>proficiency = 0.95, interactions = 7, last_practiced = ''t0''\<rparr>],
      learning_history = [], learning_velocity = 0.5\<rparr>"

definition full_marks :: track_call where
  "full_marks =
     \<lparr>call_user = ''u1'', call_now = ''t1'',
      call_data = \<lparr>topic = Some ''loops'', success_rate = Some 1, stamp = None\<rparr>,
      call_write = Written\<rparr>"




subsection \<open>Python floats\<close>

text \<open>
  The range invariant and the mean above do not depend on rounding and are stated over the
  reals. An equality test on a float does depend on it. A Python float is an IEEE 754
  binary64 number; a finite non-negative one is a natural significand times a power of
  two, and the result of an addition or a multiplication is the exact result rounded to 53
  significant bits, a tie going to the even significand. Negative numbers, subnormal
  numbers and overflow do not occur in the arithmetic of a proficiency and are left out.
\<close>

type_synonym double = "nat \<times> int"

definition value_of :: "double \<Rightarrow> real" where
  "value_of d =
     (if 0 \<le> snd d then real (fst d) * 2 ^ nat (snd d) else real (fst d) / 2 ^ nat (- snd d))"

fun bit_length :: "nat \<Rightarrow> nat" where
  "bit_length n = (if n = 0 then 0 else Suc (bit_length (n div 2)))"

declare bit_length.simps [simp del]

text \<open>
  Rounding \<open>n * 2 ^ e\<close> to 53 bits; \<open>inexact\<close> says that \<open>n\<close> itself is a quotient cut
  off, so that what looks like a tie lies above the middle.
\<close>

definition round_to_53 :: "nat \<Rightarrow> bool \<Rightarrow> int \<Rightarrow> double" where
  "round_to_53 n inexact e =
     (if bit_length n \<le> 53 then (n, e)
      else
        (let k = bit_length n - 53;
             q = n div 2 ^ k;
             r = n mod 2 ^ k;
             half = 2 ^ (k - 1);
             up = (half < r \<or> (r = half \<and> (inexact \<or> q mod 2 = 1)))
         in (if up then q + 1 else q, e + int k)))"

definition fl_mul :: "double \<Rightarrow> double \<Rightarrow> double" where
  "fl_mul a b = round_to_53 (fst a * fst b) False (snd a + snd b)"

definition fl_add :: "double \<Rightarrow> double \<Rightarrow> double" where
  "fl_add a b =
     (let e = min (snd a) (snd b)
      in round_to_53 (fst a * 2 ^ nat (snd a - e) + fst b * 2 ^ nat (snd b - e)) False e)"

text \<open>\<^verbatim>\<open>min(a, b)\<close> returns \<open>b\<close> when it is smaller and \<open>a\<close> otherwise.\<close>

definition py_min :: "double \<Rightarrow> double \<Rightarrow> double" where
  "py_min a b = (if value_of b < value_of a then b else a)"

text \<open>
  The float a decimal literal \<open>p / q\<close> denotes: the quotient is taken with at least 56
  bits and rounded.
\<close>

definition literal :: "nat \<Rightarrow> nat \<Rightarrow> double" where
  "literal p q =
     (let s = 56 + bit_length q - bit_length p
      in round_to_53 (p * 2 ^ s div q) (0 < p * 2 ^ s mod q) (- int s))"

text \<open>The literals \<^verbatim>\<open>0.1\<close>, \<^verbatim>\<open>1.0\<close>, \<^verbatim>\<open>0.5\<close> and \<^verbatim>\<open>0.15\<close>.\<close>

definition lit_0_1 :: double where
  "lit_0_1 = literal 1 10"

definition lit_1_0 :: double where
  "lit_1_0 = literal 1 1"

definition lit_0_5 :: double where
  "lit_0_5 = literal 1 2"

definition lit_0_15 :: double where
  "lit_0_15 = literal 3 20"

text \<open>
  The statements of \<^verbatim>\<open>track_learning_progress\<close> on a knowledge area, with the proficiency
  a float: the new area, the update
  \<^verbatim>\<open>min(1.0, current_proficiency + (success_rate * learning_rate))\<close> with
  \<^verbatim>\<open>learning_rate = 0.1\<close>, and the step on the areas for a topic and a success rate.
\<close>

record area64 =
  proficiency64 :: double
  interactions64 :: int
  last_practiced64 :: timestamp

definition new_area64 :: "timestamp \<Rightarrow> area64" where
  "new_area64 now = \<lparr>proficiency64 = lit_0_1, interactions64 = 0, last_practiced64 = now\<rparr>"

definition update_area64 :: "timestamp \<Rightarrow> double \<Rightarrow> area64 \<Rightarrow> area64" where
  "update_area64 now s a =
     a\<lparr>interactions64 := interactions64 a + 1,
       last_practiced64 := now,
       proficiency64 := py_min lit_1_0 (fl_add (proficiency64 a) (fl_mul s lit_0_1))\<rparr>"

definition track_areas64 ::
  "timestamp \<Rightarrow> string \<Rightarrow> double \<Rightarrow> (string \<rightharpoonup> area64) \<Rightarrow> (string \<rightharpoonup> area64)" where
  "track_areas64 now t s areas =
     (if t \<noteq> [] then
        (let area = (case areas t of None \<Rightarrow> new_area64 now | Some a \<Rightarrow> a)
         in areas(t \<mapsto> update_area64 now s area))
      else areas)"

subsection \<open>personalization/user\_context.py: the fallback file of a user\<close>

text \<open>
  \<^verbatim>\<open>_save_to_file\<close> and \<^verbatim>\<open>_load_from_file\<close> compute the same path:
  \<^verbatim>\<open>safe_user_id = "".join(c if c.isalnum() or c in "._-@" else "_" for c in user_id)\<close>,
  \<^verbatim>\<open>file_path = os.path.join(self.fallback_directory, f"user_{safe_user_id}.json")\<close>.
  \<^verbatim>\<open>str.isalnum\<close> belongs to the Python library and is a parameter here.
\<close>

definition safe_user_id :: "(char \<Rightarrow> bool) \<Rightarrow> string \<Rightarrow> string" where
  "safe_user_id isalnum user_id =
     map (\<lambda>c. if isalnum c \<or> c \<in> set ''._-@'' then c else CHR ''_'') user_id"

definition file_name :: "(char \<Rightarrow> bool) \<Rightarrow> string \<Rightarrow> string" where
  "file_name isalnum user_id = ''user_'' @ safe_user_id isalnum user_id @ ''.json''"

definition fallback_directory :: string where
  "fallback_directory = ''user_profiles''"

text \<open>
  \<^verbatim>\<open>os.path.join\<close> of two components on a POSIX system: an absolute second component
  replaces the first, otherwise the two are joined by one slash.
\<close>

definition path_join :: "string \<Rightarrow> string \<Rightarrow> string" where
  "path_join a b =
     (if b \<noteq> [] \<and> hd b = CHR ''/'' then b
      else if a = [] \<or> last a = CHR ''/'' then a @ b
      else a @ ''/'' @ b)"

definition file_path :: "(char \<Rightarrow> bool) \<Rightarrow> string \<Rightarrow> string" where
  "file_path isalnum user_id = path_join fallback_directory (file_name isalnum user_id)"

definition backslash :: char where
  "backslash = CHR 0x5C"

text \<open>The ASCII letters and digits, on which \<^verbatim>\<open>str.isalnum\<close> is true.\<close>

definition ascii_alnum :: "char \<Rightarrow> bool" where
  "ascii_alnum c =
     (let n = (of_char c :: nat)
      in (48 \<le> n \<and> n \<le> 57) \<or> (65 \<le> n \<and> n \<le> 90) \<or> (97 \<le> n \<and> n \<le> 122))"

subsection \<open>Profile dictionaries and their migration\<close>

text \<open>
  A profile file holds a JSON object. A Python dictionary is an association list: a key
  that is present is updated in place, a new key goes to the end (\<open>AList.update\<close>),
  and \<open>map_of\<close> reads a key.
\<close>

datatype json =
    JNull
  | JBool bool
  | JNum real
  | JStr string
  | JList "json list"
  | JDict "(string \<times> json) list"

type_synonym dict = "(string \<times> json) list"

text \<open>
  advanced\_personalization\_agent.py, \<^verbatim>\<open>get_advanced_user_profile\<close>: the default profile,
  and the loop that copies into the stored profile every default key it does not have.
\<close>

definition default_profile_dict :: "string \<Rightarrow> timestamp \<Rightarrow> dict" where
  "default_profile_dict user_id now =
     [(''user_id'', JStr user_id),
      (''created_at'', JStr now),
      (''updated_at'', JStr now),
      (''coding_style'', JDict
         [(''preferred_naming'', JStr ''camelCase''),
          (''indentation'', JStr ''spaces''),
          (''comment_frequency'', JStr ''moderate''),
          (''function_length_preference'', JStr ''short''),
          (''error_handling_style'', JStr ''try-catch''),
          (''preferred_paradigm'', JStr ''mixed'')]),
      (''learning_preferences'', JDict
         [(''primary_style'', JStr ''hands_on''),
          (''secondary_style'', JStr ''example_based''),
          (''explanation_depth'', JStr ''detailed''),
          (''prefers_visual_aids'', JBool True),
          (''learns_best_with'', JList [JStr ''examples'', JStr ''practice'', JStr ''feedback''])]),
      (''knowledge_areas'', JDict []),
      (''project_contexts'', JDict []),
      (''learning_history'', JList []),
      (''skill_progression'', JDict
         [(''overall_level'', JStr ''beginner''),
          (''areas_of_strength'', JList []),
          (''areas_for_improvement'', JList []),
          (''learning_velocity'', JNum 0.5)]),
      (''interaction_patterns'', JDict
         [(''most_active_times'', JList []),
          (''preferred_session_length'', JStr ''30min''),
          (''feedback_receptivity'', JStr ''high''),
          (''challenge_tolerance'', JStr ''moderate'')])]"

fun merge_with_default :: "dict \<Rightarrow> dict \<Rightarrow> dict" where
  "merge_with_default [] existing_profile = existing_profile"
| "merge_with_default ((key, val) # items) existing_profile =
     merge_with_default items
       (if map_of existing_profile key = None then AList.update key val existing_profile
        else existing_profile)"

text \<open>
  The profile returned for a user: the stored object merged with the default when the file
  exists and parses, the default otherwise.
\<close>

definition get_advanced_user_profile_dict :: "string \<Rightarrow> timestamp \<Rightarrow> dict option \<Rightarrow> dict" where
  "get_advanced_user_profile_dict user_id now stored =
     (case stored of
        Some existing_profile \<Rightarrow> merge_with_default (default_profile_dict user_id now) existing_profile
      | None \<Rightarrow> default_profile_dict user_id now)"

text \<open>
  enhanced\_learning\_agent.py, \<^verbatim>\<open>_create_enhanced_profile\<close> and
  \<^verbatim>\<open>_migrate_profile_structure\<close>: a new enhanced profile is built, five keys of the
  old profile are copied into it, and \<^verbatim>\<open>updated_at\<close> is set to the current time.
\<close>

definition create_enhanced_profile :: "timestamp \<Rightarrow> dict" where
  "create_enhanced_profile now =
     [(''created_at'', JStr now),
      (''updated_at'', JStr now),
      (''interactions_count'', JNum 0),
      (''skill_level'', JStr ''beginner''),
      (''learning_style'', JList [JStr ''visual'']),
      (''knowledge_areas'', JDict []),
      (''coding_patterns'', JDict
         [(''preferred_languages'', JList []),
          (''common_mistakes'', JList []),
          (''improvement_areas'', JList []),
          (''coding_style_preferences'', JDict [])]),
      (''learning_progress'', JDict []),
      (''session_history'', JList []),
      (''personalization_data'', JDict
         [(''explanation_complexity_preference'', JStr ''simple''),
          (''feedback_frequency'', JStr ''moderate''),
          (''preferred_learning_path'', JStr ''structured'')]),
      (''performance_metrics'', JDict
         [(''code_understanding_score'', JNum 0),
          (''problem_solving_speed'', JNum 0),
          (''concept_retention'', JNum 0)]),
      (''adaptive_recommendations'', JList [])]"

definition migrated_keys :: "string list" where
  "migrated_keys =
     [''created_at'', ''interactions_count'', ''skill_level'', ''knowledge_areas'', ''session_history'']"

fun migrate_keys :: "string list \<Rightarrow> dict \<Rightarrow> dict \<Rightarrow> dict" where
  "migrate_keys [] old_profile enhanced_profile = enhanced_profile"
| "migrate_keys (key # keys) old_profile enhanced_profile =
     migrate_keys keys old_profile
       (case map_of old_profile key of
          Some v \<Rightarrow> AList.update key v enhanced_profile
        | None \<Rightarrow> enhanced_profile)"

definition migrate_profile_structure :: "timestamp \<Rightarrow> dict \<Rightarrow> dict" where
  "migrate_profile_structure now old_profile =
     AList.update ''updated_at'' (JStr now)
       (migrate_keys migrated_keys old_profile (create_enhanced_profile now))"

text \<open>A stored profile whose learning style is not the default one.\<close>

definition auditory_profile :: dict where
  "auditory_profile =
     [(''interactions_count'', JNum 12),
      (''learning_style'', JList [JStr ''auditory''])]"

subsection \<open>Python strings\<close>

text \<open>
  Strings are lists of characters. \<^verbatim>\<open>lower\<close>, \<^verbatim>\<open>title\<close> and \<^verbatim>\<open>split\<close> are modelled on
  the first 256 code points: only the letters A to Z and a to z are cased, and the white
  space characters are those \<^verbatim>\<open>str.isspace\<close> accepts there (9 to 13, 28 to 32, 133, 160).
\<close>

definition ascii_uppercase :: string where
  "ascii_uppercase = ''ABCDEFGHIJKLMNOPQRSTUVWXYZ''"

definition ascii_lowercase :: string where
  "ascii_lowercase = ''abcdefghijklmnopqrstuvwxyz''"

definition is_upper :: "char \<Rightarrow> bool" where
  "is_upper c \<longleftrightarrow> c \<in> set ascii_uppercase"

definition is_lower :: "char \<Rightarrow> bool" where
  "is_lower c \<longleftrightarrow> c \<in> set ascii_lowercase"

definition lower_char :: "char \<Rightarrow> char" where
  "lower_char c = (case map_of (zip ascii_uppercase ascii_lowercase) c of Some l \<Rightarrow> l | None \<Rightarrow> c)"

definition upper_char :: "char \<Rightarrow> char" where
  "upper_char c = (case map_of (zip ascii_lowercase ascii_uppercase) c of Some u \<Rightarrow> u | None \<Rightarrow> c)"

definition lower :: "string \<Rightarrow> string" where
  "lower s = map lower_char s"

text \<open>
  \<^verbatim>\<open>str.title\<close>: a cased character is put in upper case when the character before it is
  not cased, and in lower case otherwise.
\<close>

fun title_from :: "bool \<Rightarrow> string \<Rightarrow> string" where
  "title_from previous_is_cased [] = []"
| "title_from previous_is_cased (c # cs) =
     (if is_upper c \<or> is_lower c
      then (if previous_is_cased then lower_char c else upper_char c) # title_from True cs
      else c # title_from False cs)"

definition title :: "string \<Rightarrow> string" where
  "title s = title_from False s"

text \<open>\<^verbatim>\<open>needle in haystack\<close> on strings: the needle occurs as a contiguous piece.\<close>

fun starts_with :: "string \<Rightarrow> string \<Rightarrow> bool" where
  "starts_with [] s = True"
| "starts_with (x # xs) [] = False"
| "starts_with (x # xs) (c # cs) = (x = c \<and> starts_with xs cs)"

fun str_in :: "string \<Rightarrow> string \<Rightarrow> bool" where
  "str_in needle [] = (needle = [])"
| "str_in needle (c # cs) = (starts_with needle (c # cs) \<or> str_in needle cs)"

text \<open>\<^verbatim>\<open>str(n)\<close> for a natural number.\<close>

fun str_nat :: "nat \<Rightarrow> string" where
  "str_nat n =
     (if n < 10 then [char_of (48 + n)]
      else str_nat (n div 10) @ [char_of (48 + n mod 10)])"

declare str_nat.simps [simp del]

subsection \<open>personalization/user\_context.py: recommendations\<close>

text \<open>
  The part of the user context the recommendations read. A key that is absent is \<open>None\<close>,
  and each read applies the default the source gives to \<^verbatim>\<open>get\<close>.
\<close>

record preferences_rec =
  learningStyle :: "string option"
  weakTopics :: "string list option"
  goals :: "string list option"

record session_data_rec =
  topics :: "string list option"

record user_context =
  preferences :: "preferences_rec option"
  skillLevel :: "string option"
  sessionData :: "session_data_rec option"

text \<open>\<^verbatim>\<open>_create_default_context\<close>: the context of a user seen for the first time.\<close>

definition create_default_context :: user_context where
  "create_default_context =
     \<lparr>preferences = Some \<lparr>learningStyle = Some ''visual'', weakTopics = Some [],
                           goals = Some [''Master coding concepts'']\<rparr>,
      skillLevel = None,
      sessionData = Some \<lparr>topics = Some []\<rparr>\<rparr>"

definition get_weak_topics :: "user_context \<Rightarrow> string list" where
  "get_weak_topics ctx =
     (case preferences ctx of None \<Rightarrow> []
      | Some p \<Rightarrow> (case weakTopics p of None \<Rightarrow> [] | Some ws \<Rightarrow> ws))"

definition get_goals :: "user_context \<Rightarrow> string list" where
  "get_goals ctx =
     (case preferences ctx of None \<Rightarrow> []
      | Some p \<Rightarrow> (case goals p of None \<Rightarrow> [] | Some gs \<Rightarrow> gs))"

definition get_learning_style :: "user_context \<Rightarrow> string" where
  "get_learning_style ctx =
     (case preferences ctx of None \<Rightarrow> ''visual''
      | Some p \<Rightarrow> (case learningStyle p of None \<Rightarrow> ''visual'' | Some s \<Rightarrow> s))"

definition get_session_topics :: "user_context \<Rightarrow> string list" where
  "get_session_topics ctx =
     (case sessionData ctx of None \<Rightarrow> []
      | Some s \<Rightarrow> (case topics s of None \<Rightarrow> [] | Some ts \<Rightarrow> ts))"

definition get_skill_level :: "user_context \<Rightarrow> string" where
  "get_skill_level ctx = (case skillLevel ctx of None \<Rightarrow> ''beginner'' | Some l \<Rightarrow> l)"

text \<open>
  \<^verbatim>\<open>_extract_topic_from_goal\<close>. Without a Gemini model it returns the first of eight
  common topics that occurs in the lower-cased goal. With a model it returns what the
  model's answer gives (the stripped, lower-cased text; \<open>None\<close> for an empty text or an
  exception): that answer is a parameter, indexed by the call, so that two calls are free
  to answer differently.
\<close>

type_synonym gemini_model = "nat \<Rightarrow> string \<Rightarrow> string option"

definition common_goal_topics :: "string list" where
  "common_goal_topics =
     [''python'', ''javascript'', ''algorithms'', ''data structures'',
      ''database'', ''sql'', ''machine learning'', ''operating systems'']"

definition extract_topic_from_goal :: "gemini_model option \<Rightarrow> nat \<Rightarrow> string \<Rightarrow> string option" where
  "extract_topic_from_goal gemini call goal =
     (case gemini of
        None \<Rightarrow> find (\<lambda>tp. str_in tp (lower goal)) common_goal_topics
      | Some answer \<Rightarrow> answer call goal)"

definition weak_topic_flashcard :: "nat \<Rightarrow> string \<Rightarrow> dict" where
  "weak_topic_flashcard n tp =
     [(''id'', JStr (''flashcard_'' @ str_nat (n + 1))),
      (''title'', JStr (title tp @ '' Flashcards'')),
      (''description'', JStr (''Practice '' @ tp @ '' concepts to strengthen your understanding'')),
      (''difficulty'', JStr ''medium''),
      (''count'', JNum 10)]"

definition goal_flashcard :: "nat \<Rightarrow> string \<Rightarrow> dict" where
  "goal_flashcard n tp =
     [(''id'', JStr (''flashcard_'' @ str_nat (n + 1))),
      (''title'', JStr (title tp @ '' Flashcards'')),
      (''description'', JStr (''Learn key '' @ tp @ '' concepts to help reach your goal'')),
      (''difficulty'', JStr ''beginner''),
      (''count'', JNum 5)]"

definition general_flashcard :: dict where
  "general_flashcard =
     [(''id'', JStr ''flashcard_general''),
      (''title'', JStr ''Computer Science Fundamentals''),
      (''description'', JStr ''Review core CS concepts to build a strong foundation''),
      (''difficulty'', JStr ''beginner''),
      (''count'', JNum 10)]"

fun add_weak_flashcards :: "string list \<Rightarrow> dict list \<Rightarrow> dict list" where
  "add_weak_flashcards [] flashcards = flashcards"
| "add_weak_flashcards (tp # ts) flashcards =
     add_weak_flashcards ts (flashcards @ [weak_topic_flashcard (length flashcards) tp])"

text \<open>The loop over the goals: it stops as soon as three flashcards exist.\<close>

fun add_goal_flashcards :: "gemini_model option \<Rightarrow> nat \<Rightarrow> string list \<Rightarrow> dict list \<Rightarrow> dict list" where
  "add_goal_flashcards gemini call [] flashcards = flashcards"
| "add_goal_flashcards gemini call (goal # gs) flashcards =
     (if 3 \<le> length flashcards then flashcards
      else
        add_goal_flashcards gemini (call + 1) gs
          (case extract_topic_from_goal gemini call goal of
             None \<Rightarrow> flashcards
           | Some tp \<Rightarrow>
               if tp \<noteq> [] then flashcards @ [goal_flashcard (length flashcards) tp]
               else flashcards))"

definition get_flashcard_recommendations :: "gemini_model option \<Rightarrow> user_context \<Rightarrow> dict list" where
  "get_flashcard_recommendations gemini ctx =
     (let flashcards = add_weak_flashcards (take 2 (get_weak_topics ctx)) [];
          flashcards = add_goal_flashcards gemini 0 (get_goals ctx) flashcards
      in if flashcards = [] then [general_flashcard] else flashcards)"

text \<open>\<^verbatim>\<open>_get_game_recommendations\<close>.\<close>

definition combined_topics :: "user_context \<Rightarrow> string list" where
  "combined_topics ctx =
     get_weak_topics ctx @ filter (\<lambda>t. t \<notin> set (get_weak_topics ctx)) (get_session_topics ctx)"

definition game :: "string \<Rightarrow> string \<Rightarrow> string \<Rightarrow> string \<Rightarrow> string \<Rightarrow> dict" where
  "game i t d dif ty =
     [(''id'', JStr i), (''title'', JStr t), (''description'', JStr d),
      (''difficulty'', JStr dif), (''type'', JStr ty)]"

definition get_game_recommendations :: "user_context \<Rightarrow> dict list" where
  "get_game_recommendations ctx =
     (let learning_style = get_learning_style ctx;
          topics = combined_topics ctx;
          games = [];
          games = (if ''os'' \<in> set topics \<or> ''operating systems'' \<in> set topics
                   then games @ [game ''game_os_visualization'' ''OS Visualization Game''
                                   ''Interactive visualization of operating system concepts''
                                   ''medium'' ''visualization'']
                   else games);
          games = (if ''recursion'' \<in> set topics \<or> ''algorithms'' \<in> set topics
                   then games @ [game ''game_recursion_puzzle'' ''Recursion Puzzle''
                                   ''Solve recursive problems visually'' ''hard'' ''puzzle'']
                   else games);
          games = (if ''dbms'' \<in> set topics \<or> ''sql'' \<in> set topics \<or> ''database'' \<in> set topics
                   then games @ [game ''game_dbms_challenge'' ''Database Query Challenge''
                                   ''Practice SQL queries in a game environment'' ''medium'' ''quiz'']
                   else games);
          games = (if learning_style = ''visual'' \<and> length games < 2
                   then games @ [game ''game_memory_match'' ''CS Concept Memory Match''
                                   ''Match related computer science concepts'' ''easy'' ''memory'']
                   else games)
      in if games = []
         then [game ''game_coding_challenge'' ''Quick Coding Challenge''
                 ''Test your coding skills with a quick challenge'' ''medium'' ''challenge'']
         else games)"

text \<open>\<^verbatim>\<open>_get_resource_recommendations\<close>.\<close>

definition tutorial_resource :: "string \<Rightarrow> nat \<Rightarrow> string \<Rightarrow> dict" where
  "tutorial_resource skill_level n tp =
     [(''id'', JStr (''resource_'' @ str_nat (n + 1))),
      (''title'', JStr (title tp @ '' Tutorial'')),
      (''description'', JStr (''Comprehensive '' @ skill_level @ '' guide to '' @ tp)),
      (''type'', JStr ''tutorial''),
      (''format'', JStr ''interactive'')]"

definition video_resource :: "nat \<Rightarrow> string \<Rightarrow> dict" where
  "video_resource n tp =
     [(''id'', JStr (''resource_'' @ str_nat (n + 1))),
      (''title'', JStr (title tp @ '' Video Series'')),
      (''description'', JStr (''Visual explanation of key '' @ tp @ '' concepts'')),
      (''type'', JStr ''video''),
      (''format'', JStr ''playlist'')]"

definition general_resource :: dict where
  "general_resource =
     [(''id'', JStr ''resource_general''),
      (''title'', JStr ''Computer Science Fundamentals''),
      (''description'', JStr ''Core CS concepts explained clearly''),
      (''type'', JStr ''guide''),
      (''format'', JStr ''interactive'')]"

fun add_tutorials :: "string \<Rightarrow> string list \<Rightarrow> dict list \<Rightarrow> dict list" where
  "add_tutorials skill_level [] resources = resources"
| "add_tutorials skill_level (tp # ts) resources =
     add_tutorials skill_level ts (resources @ [tutorial_resource skill_level (length resources) tp])"

definition get_resource_recommendations :: "user_context \<Rightarrow> dict list" where
  "get_resource_recommendations ctx =
     (let skill_level = get_skill_level ctx;
          topics = combined_topics ctx;
          resources = add_tutorials skill_level (take 2 topics) [];
          resources = (case topics of
                         [] \<Rightarrow> resources
                       | first # _ \<Rightarrow> resources @ [video_resource (length resources) first])
      in if resources = [] then [general_resource] else resources)"

text \<open>
  \<^verbatim>\<open>_get_next_steps\<close>. The \<^verbatim>\<open>while\<close> loop appends, as long as fewer than three steps
  exist, the first general step that is not yet among them; were there none, it would
  run again unchanged.
\<close>

definition general_steps :: "string list" where
  "general_steps =
     [''Take a practice quiz to identify knowledge gaps'',
      ''Complete a learning assessment to update your profile'',
      ''Try a visualization exercise for a difficult concept'',
      ''Attempt the interactive coding exercises'']"

function pad_next_steps :: "string list \<Rightarrow> string list" where
  "pad_next_steps next_steps =
     (if length next_steps < 3
      then (case find (\<lambda>step. step \<notin> set next_steps) general_steps of
              Some step \<Rightarrow> pad_next_steps (next_steps @ [step])
            | None \<Rightarrow> pad_next_steps next_steps)
      else next_steps)"
  by pat_completeness auto

text \<open>
  The loop ends: with fewer than three steps, one of the four distinct general steps is
  always missing, so each round appends a step.
\<close>

termination
proof (relation "measure (\<lambda>next_steps. 3 - length next_steps)")
  show "wf (measure (\<lambda>next_steps :: string list. 3 - length next_steps))"
    by simp
next
  fix next_steps :: "string list" and step :: string
  assume "length next_steps < 3"
  then show "(next_steps @ [step], next_steps) \<in> measure (\<lambda>next_steps. 3 - length next_steps)"
    by simp
next
  fix next_steps :: "string list"
  assume short: "length next_steps < 3"
    and none: "find (\<lambda>step. step \<notin> set next_steps) general_steps = None"
  have "set general_steps \<subseteq> set next_steps"
    using none by (auto simp: find_None_iff)
  then have "card (set general_steps) \<le> card (set next_steps)"
    by (intro card_mono) simp_all
  moreover have "distinct general_steps"
    by (simp add: general_steps_def)
  then have "card (set general_steps) = 4"
    by (simp add: distinct_card general_steps_def)
  moreover have "card (set next_steps) \<le> length next_steps"
    by (rule card_length)
  ultimately have False
    using short by simp
  then show "(next_steps, next_steps) \<in> measure (\<lambda>next_steps. 3 - length next_steps)"
    by simp
qed

declare pad_next_steps.simps [simp del]

definition get_next_steps :: "gemini_model option \<Rightarrow> user_context \<Rightarrow> string list" where
  "get_next_steps gemini ctx =
     (let weak_topics = get_weak_topics ctx;
          gs = get_goals ctx;
          skill_level = get_skill_level ctx;
          next_steps = (case weak_topics of
                          [] \<Rightarrow> []
                        | w0 # rest \<Rightarrow>
                            [''Complete the '' @ title w0 @ '' practice exercises'']
                            @ (case rest of
                                 [] \<Rightarrow> []
                               | w1 # _ \<Rightarrow> [''Review the '' @ title w1 @ '' flashcards'']));
          next_steps = (case gs of
                          [] \<Rightarrow> next_steps
                        | g0 # _ \<Rightarrow>
                            (case extract_topic_from_goal gemini (length gs) g0 of
                               None \<Rightarrow> next_steps
                             | Some goal_topic \<Rightarrow>
                                 if goal_topic \<noteq> []
                                 then next_steps @ [''Take the '' @ title goal_topic @ '' assessment quiz'']
                                 else next_steps));
          next_steps = (if skill_level = ''beginner''
                        then next_steps @ [''Complete the CS Fundamentals interactive tutorial'']
                        else if skill_level = ''intermediate''
                        then next_steps @ [''Try the programming challenge to test your skills'']
                        else next_steps @ [''Tackle the advanced algorithm optimization exercises''])
      in take 3 (pad_next_steps next_steps))"

text \<open>\<^verbatim>\<open>get_personalized_recommendations\<close>.\<close>

record recommendations =
  flashcards :: "dict list"
  games :: "dict list"
  resources :: "dict list"
  nextSteps :: "string list"

definition get_personalized_recommendations :: "gemini_model option \<Rightarrow> user_context \<Rightarrow> recommendations" where
  "get_personalized_recommendations gemini ctx =
     \<lparr>flashcards = get_flashcard_recommendations gemini ctx,
      games = get_game_recommendations ctx,
      resources = get_resource_recommendations ctx,
      nextSteps = get_next_steps gemini ctx\<rparr>"

text \<open>A Gemini model that answers every goal with the topic "python".\<close>

definition python_model :: gemini_model where
  "python_model call goal = Some ''python''"

subsection \<open>The two personalization agents: shared data\<close>

text \<open>
  \<^verbatim>\<open>str.split()\<close> without arguments: the maximal runs of characters that are not white
  space.
\<close>

definition is_space :: "char \<Rightarrow> bool" where
  "is_space c =
     (let n = (of_char c :: nat)
      in (9 \<le> n \<and> n \<le> 13) \<or> (28 \<le> n \<and> n \<le> 32) \<or> n = 133 \<or> n = 160)"

fun split_from :: "string \<Rightarrow> string \<Rightarrow> string list" where
  "split_from word [] = (if word = [] then [] else [word])"
| "split_from word (c # cs) =
     (if is_space c
      then (if word = [] then split_from [] cs else word # split_from [] cs)
      else split_from (word @ [c]) cs)"

definition split :: "string \<Rightarrow> string list" where
  "split s = split_from [] s"

text \<open>
  The exceptions that the agents' code can meet, and the outcome of a statement sequence
  that mutates the profile: it ends normally or raises, and the profile keeps the
  mutations made before the exception.
\<close>

datatype py_error = AttributeError | TypeError | KeyError | OSError | ValueError | ChainError

datatype outcome = Done | Raised py_error

text \<open>Truth value of a JSON value, and iteration over it (\<open>None\<close>: not iterable).\<close>

fun json_truthy :: "json \<Rightarrow> bool" where
  "json_truthy JNull = False"
| "json_truthy (JBool b) = b"
| "json_truthy (JNum x) = (x \<noteq> 0)"
| "json_truthy (JStr s) = (s \<noteq> [])"
| "json_truthy (JList xs) = (xs \<noteq> [])"
| "json_truthy (JDict d) = (d \<noteq> [])"

fun json_iter :: "json \<Rightarrow> json list option" where
  "json_iter (JList xs) = Some xs"
| "json_iter (JStr s) = Some (map (\<lambda>c. JStr [c]) s)"
| "json_iter (JDict d) = Some (map (\<lambda>kv. JStr (fst kv)) d)"
| "json_iter v = None"

fun json_hashable :: "json \<Rightarrow> bool" where
  "json_hashable (JList xs) = False"
| "json_hashable (JDict d) = False"
| "json_hashable v = True"

text \<open>
  The profile of a user, as the two \<^verbatim>\<open>PersonalizationAgent\<close> classes read and write it.
  \<^verbatim>\<open>interaction_types\<close> and \<^verbatim>\<open>feedback\<close> may be absent from a stored profile. Values
  taken from a collaborator's answer stay JSON values; they are compared structurally.
\<close>

record pkg_area =
  area_interactions :: int
  last_interaction :: timestamp
  estimated_skill :: string

record profile =
  name :: "string option"
  interactions_count :: int
  skill_level :: string
  preferred_learning_styles :: "json list"
  interaction_types :: "(json \<times> int) list option"
  session_history :: "dict list"
  profile_knowledge_areas :: "string \<rightharpoonup> pkg_area"
  topic_interests :: "string list"
  areas_for_improvement :: "string list"
  feedback :: "dict list option"

text \<open>
  What the text-generation chain does when it is run: it raises, or it returns a string
  (\<^verbatim>\<open>LLMChain.run\<close> returns text, so the branch of \<^verbatim>\<open>process_query\<close> for a reply that is
  not a string is left out). \<^verbatim>\<open>json.loads\<close> is a parameter of the agents; \<open>None\<close> says that
  it raises \<^verbatim>\<open>JSONDecodeError\<close>.
\<close>

datatype chain_result = ChainRaises | ChainReturns string

type_synonym json_loads = "string \<Rightarrow> json option"

definition response_get :: "dict \<Rightarrow> string \<Rightarrow> json \<Rightarrow> json" where
  "response_get r k d = (case map_of r k of None \<Rightarrow> d | Some v \<Rightarrow> v)"

subsection \<open>personalization\_agent.py\<close>

definition greetings :: "string list" where
  "greetings =
     [''hi'', ''hello'', ''hey'', ''howdy'', ''greetings'',
      ''how are you'', ''what's up'', ''good morning'', ''good afternoon'',
      ''good evening'', ''good day'', ''nice to meet you'']"

definition is_greeting_or_casual :: "string \<Rightarrow> bool" where
  "is_greeting_or_casual query = list_ex (\<lambda>greeting. str_in greeting (lower query)) greetings"

definition memory_keywords :: "string list" where
  "memory_keywords =
     [''memory'', ''remember'', ''know about me'', ''tell me about myself'',
      ''what do you know'', ''profile'', ''information about me'',
      ''who am i'', ''about me'', ''my information'', ''what's in your memory'',
      ''do you remember me'', ''what do you remember'', ''my details'', ''my data'',
      ''my goals'', ''what are my goals'', ''my learning goals'', ''my objectives'',
      ''my skills'', ''what are my skills'', ''my interests'', ''my preferences'',
      ''my background'', ''my experience'', ''my education'', ''my job'', ''my work'']"

definition is_profile_or_memory_query :: "string \<Rightarrow> bool" where
  "is_profile_or_memory_query query = list_ex (\<lambda>keyword. str_in keyword (lower query)) memory_keywords"

definition non_educational_keywords :: "string list" where
  "non_educational_keywords =
     [''who are you'', ''what are you'', ''your name'', ''tell me about yourself'',
      ''how do you work'', ''what can you do'', ''your capabilities'', ''help me'',
      ''weather'', ''news'', ''time'', ''date'', ''joke'', ''thanks'', ''thank you'']"

definition is_non_educational :: "string \<Rightarrow> bool" where
  "is_non_educational query \<longleftrightarrow>
     list_ex (\<lambda>keyword. str_in keyword (lower query)) non_educational_keywords
     \<and> \<not> is_profile_or_memory_query query"

definition common_topics :: "string list" where
  "common_topics =
     [''algorithms'', ''data structures'', ''programming'', ''mathematics'',
      ''physics'', ''chemistry'', ''biology'', ''machine learning'']"

definition infer_topic :: "string \<Rightarrow> string" where
  "infer_topic query =
     (case find (\<lambda>t. str_in (lower t) (lower query)) common_topics of
        Some t \<Rightarrow> t
      | None \<Rightarrow> ''general'')"

text \<open>
  \<^verbatim>\<open>_update_profile_from_interaction\<close>, statement by statement. \<^verbatim>\<open>_save_user_profile\<close>
  catches every exception of the database call and leaves the profile in memory as it is,
  so it does not appear. The learning styles of an
  educational response are appended when they are new; iterating over a number or a truth
  value raises \<^verbatim>\<open>TypeError\<close>. Whether a style is new is decided by equality of the values
  as they are modelled: that Python holds \<^verbatim>\<open>True == 1\<close> and \<^verbatim>\<open>1 == 1.0\<close> is left out.
\<close>

definition add_learning_styles :: "json list \<Rightarrow> json list \<Rightarrow> json list" where
  "add_learning_styles styles preferred =
     fold (\<lambda>style ls. if style \<in> set ls then ls else ls @ [style]) styles preferred"

definition update_learning_styles :: "dict \<Rightarrow> profile \<Rightarrow> outcome \<times> profile" where
  "update_learning_styles response p =
     (case map_of response ''learning_style'' of
        None \<Rightarrow> (Done, p)
      | Some v \<Rightarrow>
          if json_truthy v
          then (case json_iter v of
                  None \<Rightarrow> (Raised TypeError, p)
                | Some styles \<Rightarrow>
                    (Done, p\<lparr>preferred_learning_styles :=
                                add_learning_styles styles (preferred_learning_styles p)\<rparr>))
          else (Done, p))"

definition update_skill_level :: "dict \<Rightarrow> profile \<Rightarrow> profile" where
  "update_skill_level response p =
     (let level = map_of response ''level'' in
      if 50 < interactions_count p then
        (if level = Some (JStr ''advanced'') then p\<lparr>skill_level := ''advanced''\<rparr>
         else if level = Some (JStr ''intermediate'') \<and> skill_level p = ''beginner''
         then p\<lparr>skill_level := ''intermediate''\<rparr>
         else p)
      else if 20 < interactions_count p then
        (if level = Some (JStr ''intermediate'') \<and> skill_level p = ''beginner''
         then p\<lparr>skill_level := ''intermediate''\<rparr>
         else p)
      else p)"

definition count_interaction_type :: "json \<Rightarrow> profile \<Rightarrow> profile" where
  "count_interaction_type query_type p =
     (let types = (case interaction_types p of None \<Rightarrow> [] | Some ts \<Rightarrow> ts);
          types = (if map_of types query_type = None then AList.update query_type 0 types else types);
          n = (case map_of types query_type of None \<Rightarrow> 0 | Some k \<Rightarrow> k)
      in p\<lparr>interaction_types := Some (AList.update query_type (n + 1) types)\<rparr>)"

definition update_profile_from_interaction ::
  "timestamp \<Rightarrow> string \<Rightarrow> json \<Rightarrow> profile \<Rightarrow> outcome \<times> profile" where
  "update_profile_from_interaction now query response p0 =
     (let p = p0\<lparr>interactions_count := interactions_count p0 + 1\<rparr> in
      case response of
        JDict r \<Rightarrow>
          (let query_type = response_get r ''query_type'' (JStr ''educational'');
               session_entry =
                 [(''timestamp'', JStr now), (''query'', JStr query), (''query_type'', query_type)];
               session_entry =
                 (if query_type = JStr ''educational''
                  then session_entry @
                         [(''inferred_level'', response_get r ''level'' (JStr ''beginner'')),
                          (''inferred_learning_styles'', response_get r ''learning_style'' (JList [])),
                          (''topic'', JStr (infer_topic query))]
                  else session_entry);
               (styled, p) =
                 (if query_type = JStr ''educational'' then update_learning_styles r p
                  else (Done, p))
           in case styled of
                Raised e \<Rightarrow> (Raised e, p)
              | Done \<Rightarrow>
                  (let p = (if query_type = JStr ''educational'' then update_skill_level r p else p);
                       p = (if query_type \<in> set [JStr ''greeting'', JStr ''non_educational'']
                            then count_interaction_type query_type p else p)
                   in (Done, p\<lparr>session_history := session_history p @ [session_entry]\<rparr>)))
      | _ \<Rightarrow> (Raised AttributeError, p))"

text \<open>
  \<^verbatim>\<open>process_query\<close>. The slice handed to \<^verbatim>\<open>json.loads\<close> runs from the first opening
  brace to the last closing brace of the chain's text. The two texts of the educational
  fall-back that depend on \<^verbatim>\<open>_extract_topic_from_query\<close> are built from a parameter
  standing for that function.
\<close>

fun find_char :: "char \<Rightarrow> string \<Rightarrow> nat option" where
  "find_char x [] = None"
| "find_char x (c # cs) =
     (if c = x then Some 0 else map_option Suc (find_char x cs))"

definition rfind_char :: "char \<Rightarrow> string \<Rightarrow> nat option" where
  "rfind_char x s =
     (case find_char x (rev s) of None \<Rightarrow> None | Some i \<Rightarrow> Some (length s - 1 - i))"

text \<open>
  \<^verbatim>\<open>json_start = response.find("{")\<close> and \<^verbatim>\<open>json_end = response.rfind("}") + 1\<close>, where
  a missing brace gives -1, so \<^verbatim>\<open>json_end\<close> is 0 without a closing brace. The slice exists
  when \<^verbatim>\<open>json_start >= 0 and json_end > json_start\<close>; otherwise \<^verbatim>\<open>ValueError\<close> is raised.
\<close>

definition json_slice :: "string \<Rightarrow> string option" where
  "json_slice response =
     (case find_char CHR ''{'' response of
        None \<Rightarrow> None
      | Some json_start \<Rightarrow>
          (let json_end = (case rfind_char CHR ''}'' response of None \<Rightarrow> 0 | Some j \<Rightarrow> j + 1)
           in if json_start < json_end
              then Some (take (json_end - json_start) (drop json_start response))
              else None))"

definition greeting_response :: json where
  "greeting_response =
     JDict [(''query_type'', JStr ''greeting''),
            (''response'', JStr ''Hello! How can I help you learn today?'')]"

definition non_educational_response :: json where
  "non_educational_response =
     JDict [(''query_type'', JStr ''non_educational''),
            (''response'', JStr ''I'm an AI educational assistant designed to help with your learning journey.'')]"

definition visual_textual :: "json list" where
  "visual_textual = [JStr ''visual'', JStr ''textual'']"

definition display_name :: "profile \<Rightarrow> string" where
  "display_name p = (case name p of None \<Rightarrow> ''there'' | Some n \<Rightarrow> n)"

text \<open>The fall-back after a \<^verbatim>\<open>JSONDecodeError\<close>.\<close>

definition decode_error_fallback :: "(string \<Rightarrow> string) \<Rightarrow> string \<Rightarrow> profile \<Rightarrow> json" where
  "decode_error_fallback extract_topic_from_query query p =
     (if is_greeting_or_casual query then greeting_response
      else if is_non_educational query then non_educational_response
      else
        (let tp = extract_topic_from_query query;
             interaction_count = interactions_count p;
             greeting =
               (if interaction_count = 0
                then ''Hi '' @ display_name p @ ''! Let's explore '' @ tp
                       @ '' together - this is going to be interesting!''
                else if interaction_count < 5
                then ''Great question, '' @ display_name p @ ''! I love that you're curious about ''
                       @ tp @ ''.''
                else ''Welcome back, '' @ display_name p @ ''! Ready to dive into '' @ tp @ ''?'')
         in JDict
              [(''query_type'', JStr ''educational''),
               (''level'', JStr (skill_level p)),
               (''learning_style'',
                  JList (if preferred_learning_styles p \<noteq> [] then preferred_learning_styles p
                         else visual_textual)),
               (''emphasis'', JList [JStr ''core concepts'']),
               (''knowledge_gaps'', JList []),
               (''connections'', JList []),
               (''tailored_instruction'',
                  JStr (''Explain the concept of '' @ tp @ '' clearly at a '' @ skill_level p @ '' level.'')),
               (''tailored_query'', JStr query),
               (''personalized_greeting'', JStr greeting)]))"

text \<open>The fall-back of the outer \<^verbatim>\<open>except Exception\<close>.\<close>

definition exception_fallback :: "string \<Rightarrow> profile \<Rightarrow> json" where
  "exception_fallback query p =
     (if is_greeting_or_casual query then greeting_response
      else if is_non_educational query then non_educational_response
      else
        JDict
          [(''query_type'', JStr ''educational''),
           (''level'', JStr ''beginner''),
           (''learning_style'', JList visual_textual),
           (''emphasis'', JList [JStr ''core concepts'']),
           (''knowledge_gaps'', JList []),
           (''connections'', JList []),
           (''tailored_instruction'',
              JStr (''Explain the concept of '' @ query @ '' in a clear, straightforward manner.'')),
           (''tailored_query'', JStr query),
           (''personalized_greeting'',
              JStr (''Hi '' @ display_name p @ ''! Let's explore '' @ query @ '' together!''))])"

text \<open>
  The parameters of a call: \<^verbatim>\<open>json.loads\<close>, \<^verbatim>\<open>_extract_topic_from_query\<close>, what the
  chain does, and the time.
\<close>

record call_env =
  env_loads :: json_loads
  env_extract_topic :: "string \<Rightarrow> string"
  env_chain :: chain_result
  env_now :: timestamp

text \<open>
  The result of \<^verbatim>\<open>process_query\<close>: the value returned, or the exception that reaches the
  caller, and the profile afterwards.
\<close>

definition process_query :: "call_env \<Rightarrow> string \<Rightarrow> profile \<Rightarrow> (py_error + json) \<times> profile" where
  "process_query env query p =
     (if length (split query) \<le> 3 \<and> is_greeting_or_casual query then
        (case update_profile_from_interaction (env_now env) query greeting_response p of
           (Done, p') \<Rightarrow> (Inr greeting_response, p')
         | (Raised e, p') \<Rightarrow> (Inr (exception_fallback query p'), p'))
      else
        (case env_chain env of
           ChainRaises \<Rightarrow> (Inr (exception_fallback query p), p)
         | ChainReturns response \<Rightarrow>
             (case json_slice response of
                None \<Rightarrow> (Inr (exception_fallback query p), p)
              | Some text \<Rightarrow>
                  (case env_loads env text of
                     None \<Rightarrow> (Inr (decode_error_fallback (env_extract_topic env) query p), p)
                   | Some response_dict \<Rightarrow>
                       (case update_profile_from_interaction (env_now env) query response_dict p of
                          (Done, p') \<Rightarrow> (Inr response_dict, p')
                        | (Raised e, p') \<Rightarrow> (Inr (exception_fallback query p'), p'))))))"

text \<open>\<^verbatim>\<open>provide_feedback\<close>: the entry is appended to the feedback list, created when absent.\<close>

definition feedback_text :: "string option \<Rightarrow> json" where
  "feedback_text fb = (case fb of None \<Rightarrow> JNull | Some t \<Rightarrow> JStr t)"

definition provide_feedback :: "timestamp \<Rightarrow> string \<Rightarrow> bool \<Rightarrow> string option \<Rightarrow> profile \<Rightarrow> profile" where
  "provide_feedback now query was_helpful fb p =
     (let entries = (case feedback p of None \<Rightarrow> [] | Some es \<Rightarrow> es)
      in p\<lparr>feedback := Some (entries @
             [[(''timestamp'', JStr now), (''query'', JStr query),
               (''was_helpful'', JBool was_helpful), (''feedback'', feedback_text fb)]])\<rparr>)"

subsection \<open>Stored profiles\<close>

text \<open>
  A profile as it comes from storage is a dictionary in which any key of the schema may be
  missing: \<^verbatim>\<open>self.user_profile["key"]\<close> then raises \<^verbatim>\<open>KeyError\<close>, while
  \<^verbatim>\<open>self.user_profile.get("key", d)\<close> gives the default. In a stored profile every key is
  optional. The functions of personalization\_agent.py above are its functions on a profile
  that holds every key; below, the same statements are followed on a stored profile, for
  both agents.
\<close>

record stored_profile =
  st_name :: "string option"
  st_interactions_count :: "int option"
  st_skill_level :: "string option"
  st_preferred_learning_styles :: "json list option"
  st_interaction_types :: "(json \<times> int) list option"
  st_session_history :: "dict list option"
  st_knowledge_areas :: "(string \<rightharpoonup> pkg_area) option"
  st_topic_interests :: "string list option"
  st_areas_for_improvement :: "string list option"
  st_feedback :: "dict list option"

text \<open>The stored form of a profile that holds every key but, possibly, the two optional ones.\<close>

definition stored_of :: "profile \<Rightarrow> stored_profile" where
  "stored_of p =
     \<lparr>st_name = name p,
      st_interactions_count = Some (interactions_count p),
      st_skill_level = Some (skill_level p),
      st_preferred_learning_styles = Some (preferred_learning_styles p),
      st_interaction_types = interaction_types p,
      st_session_history = Some (session_history p),
      st_knowledge_areas = Some (profile_knowledge_areas p),
      st_topic_interests = Some (topic_interests p),
      st_areas_for_improvement = Some (areas_for_improvement p),
      st_feedback = feedback p\<rparr>"

subsection \<open>personalization\_agent.py on a stored profile\<close>

text \<open>
  The loop over the response's learning styles reads \<^verbatim>\<open>preferred_learning_styles\<close> in its
  first round, after the response's value has been found iterable.
\<close>

definition update_learning_styles_stored :: "dict \<Rightarrow> stored_profile \<Rightarrow> outcome \<times> stored_profile" where
  "update_learning_styles_stored response p =
     (case map_of response ''learning_style'' of
        None \<Rightarrow> (Done, p)
      | Some v \<Rightarrow>
          if json_truthy v
          then (case json_iter v of
                  None \<Rightarrow> (Raised TypeError, p)
                | Some styles \<Rightarrow>
                    (case st_preferred_learning_styles p of
                       None \<Rightarrow> (Raised KeyError, p)
                     | Some preferred \<Rightarrow>
                         (Done, p\<lparr>st_preferred_learning_styles :=
                                     Some (add_learning_styles styles preferred)\<rparr>)))
          else (Done, p))"

text \<open>
  \<^verbatim>\<open>skill_level\<close> is read only when the response's level is "intermediate"; setting it
  needs no key.
\<close>

definition promote_beginner :: "stored_profile \<Rightarrow> outcome \<times> stored_profile" where
  "promote_beginner p =
     (case st_skill_level p of
        None \<Rightarrow> (Raised KeyError, p)
      | Some l \<Rightarrow> (Done, if l = ''beginner'' then p\<lparr>st_skill_level := Some ''intermediate''\<rparr> else p))"

definition update_skill_level_stored :: "dict \<Rightarrow> stored_profile \<Rightarrow> outcome \<times> stored_profile" where
  "update_skill_level_stored response p =
     (case st_interactions_count p of
        None \<Rightarrow> (Raised KeyError, p)
      | Some n \<Rightarrow>
          (let level = map_of response ''level'' in
           if 50 < n then
             (if level = Some (JStr ''advanced'') then (Done, p\<lparr>st_skill_level := Some ''advanced''\<rparr>)
              else if level = Some (JStr ''intermediate'') then promote_beginner p
              else (Done, p))
           else if 20 < n then
             (if level = Some (JStr ''intermediate'') then promote_beginner p else (Done, p))
           else (Done, p)))"

definition count_interaction_type_stored :: "json \<Rightarrow> stored_profile \<Rightarrow> stored_profile" where
  "count_interaction_type_stored query_type p =
     (let types = (case st_interaction_types p of None \<Rightarrow> [] | Some ts \<Rightarrow> ts);
          types = (if map_of types query_type = None then AList.update query_type 0 types else types);
          n = (case map_of types query_type of None \<Rightarrow> 0 | Some k \<Rightarrow> k)
      in p\<lparr>st_interaction_types := Some (AList.update query_type (n + 1) types)\<rparr>)"

definition update_profile_from_interaction_stored ::
  "timestamp \<Rightarrow> string \<Rightarrow> json \<Rightarrow> stored_profile \<Rightarrow> outcome \<times> stored_profile" where
  "update_profile_from_interaction_stored now query response p0 =
     (case st_interactions_count p0 of
        None \<Rightarrow> (Raised KeyError, p0)
      | Some n \<Rightarrow>
          (let p = p0\<lparr>st_interactions_count := Some (n + 1)\<rparr> in
           case response of
             JDict r \<Rightarrow>
               (let query_type = response_get r ''query_type'' (JStr ''educational'');
                    session_entry =
                      [(''timestamp'', JStr now), (''query'', JStr query), (''query_type'', query_type)];
                    session_entry =
                      (if query_type = JStr ''educational''
                       then session_entry @
                              [(''inferred_level'', response_get r ''level'' (JStr ''beginner'')),
                               (''inferred_learning_styles'', response_get r ''learning_style'' (JList [])),
                               (''topic'', JStr (infer_topic query))]
                       else session_entry);
                    (styled, p) =
                      (if query_type = JStr ''educational'' then update_learning_styles_stored r p
                       else (Done, p))
                in case styled of
                     Raised e \<Rightarrow> (Raised e, p)
                   | Done \<Rightarrow>
                       (let (levelled, p) =
                              (if query_type = JStr ''educational'' then update_skill_level_stored r p
                               else (Done, p))
                        in case levelled of
                             Raised e \<Rightarrow> (Raised e, p)
                           | Done \<Rightarrow>
                               (let p = (if query_type \<in> set [JStr ''greeting'', JStr ''non_educational'']
                                         then count_interaction_type_stored query_type p else p)
                                in case st_session_history p of
                                     None \<Rightarrow> (Raised KeyError, p)
                                   | Some history \<Rightarrow>
                                       (Done, p\<lparr>st_session_history := Some (history @ [session_entry])\<rparr>))))
           | _ \<Rightarrow> (Raised AttributeError, p)))"

definition display_name_stored :: "stored_profile \<Rightarrow> string" where
  "display_name_stored p = (case st_name p of None \<Rightarrow> ''there'' | Some n \<Rightarrow> n)"

text \<open>
  The fall-back after a \<^verbatim>\<open>JSONDecodeError\<close>: building the educational answer reads
  \<^verbatim>\<open>skill_level\<close> and \<^verbatim>\<open>preferred_learning_styles\<close>.
\<close>

definition decode_error_fallback_stored ::
  "(string \<Rightarrow> string) \<Rightarrow> string \<Rightarrow> stored_profile \<Rightarrow> py_error + json" where
  "decode_error_fallback_stored extract_topic_from_query query p =
     (if is_greeting_or_casual query then Inr greeting_response
      else if is_non_educational query then Inr non_educational_response
      else
        (let tp = extract_topic_from_query query;
             interaction_count = (case st_interactions_count p of None \<Rightarrow> 0 | Some n \<Rightarrow> n);
             greeting =
               (if interaction_count = 0
                then ''Hi '' @ display_name_stored p @ ''! Let's explore '' @ tp
                       @ '' together - this is going to be interesting!''
                else if interaction_count < 5
                then ''Great question, '' @ display_name_stored p @ ''! I love that you're curious about ''
                       @ tp @ ''.''
                else ''Welcome back, '' @ display_name_stored p @ ''! Ready to dive into '' @ tp @ ''?'')
         in case st_skill_level p of
              None \<Rightarrow> Inl KeyError
            | Some level \<Rightarrow>
                (case st_preferred_learning_styles p of
                   None \<Rightarrow> Inl KeyError
                 | Some styles \<Rightarrow>
                     Inr (JDict
                       [(''query_type'', JStr ''educational''),
                        (''level'', JStr level),
                        (''learning_style'', JList (if styles \<noteq> [] then styles else visual_textual)),
                        (''emphasis'', JList [JStr ''core concepts'']),
                        (''knowledge_gaps'', JList []),
                        (''connections'', JList []),
                        (''tailored_instruction'',
                           JStr (''Explain the concept of '' @ tp @ '' clearly at a '' @ level @ '' level.'')),
                        (''tailored_query'', JStr query),
                        (''personalized_greeting'', JStr greeting)]))))"

text \<open>The fall-back of the outer \<^verbatim>\<open>except Exception\<close>: it reads the name only, with a default.\<close>

definition exception_fallback_stored :: "string \<Rightarrow> stored_profile \<Rightarrow> json" where
  "exception_fallback_stored query p =
     (if is_greeting_or_casual query then greeting_response
      else if is_non_educational query then non_educational_response
      else
        JDict
          [(''query_type'', JStr ''educational''),
           (''level'', JStr ''beginner''),
           (''learning_style'', JList visual_textual),
           (''emphasis'', JList [JStr ''core concepts'']),
           (''knowledge_gaps'', JList []),
           (''connections'', JList []),
           (''tailored_instruction'',
              JStr (''Explain the concept of '' @ query @ '' in a clear, straightforward manner.'')),
           (''tailored_query'', JStr query),
           (''personalized_greeting'',
              JStr (''Hi '' @ display_name_stored p @ ''! Let's explore '' @ query @ '' together!''))])"

text \<open>
  \<^verbatim>\<open>process_query\<close>: every exception raised in the \<^verbatim>\<open>try\<close>, the \<^verbatim>\<open>ValueError\<close> for a text
  without braces and a \<^verbatim>\<open>KeyError\<close> of the inner handler included, ends in the outer
  handler.
\<close>

definition process_query_stored ::
  "call_env \<Rightarrow> string \<Rightarrow> stored_profile \<Rightarrow> (py_error + json) \<times> stored_profile" where
  "process_query_stored env query p =
     (if length (split query) \<le> 3 \<and> is_greeting_or_casual query then
        (case update_profile_from_interaction_stored (env_now env) query greeting_response p of
           (Done, p') \<Rightarrow> (Inr greeting_response, p')
         | (Raised e, p') \<Rightarrow> (Inr (exception_fallback_stored query p'), p'))
      else
        (case env_chain env of
           ChainRaises \<Rightarrow> (Inr (exception_fallback_stored query p), p)
         | ChainReturns response \<Rightarrow>
             (case json_slice response of
                None \<Rightarrow> (Inr (exception_fallback_stored query p), p)
              | Some js \<Rightarrow>
                  (case env_loads env js of
                     None \<Rightarrow>
                       (case decode_error_fallback_stored (env_extract_topic env) query p of
                          Inr default_response \<Rightarrow> (Inr default_response, p)
                        | Inl e \<Rightarrow> (Inr (exception_fallback_stored query p), p))
                   | Some response_dict \<Rightarrow>
                       (case update_profile_from_interaction_stored (env_now env) query response_dict p of
                          (Done, p') \<Rightarrow> (Inr response_dict, p')
                        | (Raised e, p') \<Rightarrow> (Inr (exception_fallback_stored query p'), p'))))))"

subsection \<open>personalization/agent.py\<close>

definition pkg_greetings :: "string list" where
  "pkg_greetings =
     [''hello'', ''hi'', ''hey'', ''greetings'', ''good morning'', ''good afternoon'',
      ''good evening'', ''how are you'', ''what's up'']"

definition pkg_is_greeting_or_casual :: "string \<Rightarrow> bool" where
  "pkg_is_greeting_or_casual query = list_ex (\<lambda>greeting. str_in greeting (lower query)) pkg_greetings"

definition pkg_non_educational :: "string list" where
  "pkg_non_educational =
     [''your name'', ''who are you'', ''what can you do'', ''help me'',
      ''created you'', ''made you'', ''about you'', ''how do you work'']"

definition pkg_is_non_educational :: "string \<Rightarrow> bool" where
  "pkg_is_non_educational query = list_ex (\<lambda>word. str_in word (lower query)) pkg_non_educational"

definition pkg_infer_topic :: "string \<Rightarrow> string" where
  "pkg_infer_topic query =
     (let q = lower query in
      if str_in ''python'' q then ''python''
      else if str_in ''javascript'' q \<or> str_in ''js'' q then ''javascript''
      else if str_in ''math'' q \<or> str_in ''calculus'' q then ''mathematics''
      else if str_in ''history'' q then ''history''
      else if str_in ''physics'' q then ''physics''
      else if str_in ''chemistry'' q then ''chemistry''
      else if str_in ''biology'' q then ''biology''
      else ''general'')"

text \<open>
  \<^verbatim>\<open>_save_user_profile\<close> creates the profile directory outside its \<^verbatim>\<open>try\<close>: when that
  fails the exception leaves the function; a failed write is logged only. The profile in
  memory is not touched.
\<close>

definition pkg_save_user_profile :: "bool \<Rightarrow> outcome" where
  "pkg_save_user_profile makedirs_ok = (if makedirs_ok then Done else Raised OSError)"

text \<open>
  \<^verbatim>\<open>if query_type in self.user_profile["interaction_types"]\<close>: the key is read first, then
  the query type is hashed.
\<close>

definition pkg_count_interaction_type :: "json \<Rightarrow> stored_profile \<Rightarrow> outcome \<times> stored_profile" where
  "pkg_count_interaction_type query_type p =
     (case st_interaction_types p of
        None \<Rightarrow> (Raised KeyError, p)
      | Some types \<Rightarrow>
          if \<not> json_hashable query_type then (Raised TypeError, p)
          else
            (case map_of types query_type of
               Some n \<Rightarrow> (Done, p\<lparr>st_interaction_types := Some (AList.update query_type (n + 1) types)\<rparr>)
             | None \<Rightarrow> (Done, p\<lparr>st_interaction_types := Some (AList.update query_type 1 types)\<rparr>)))"

text \<open>
  The knowledge area of the topic is created or counted up, then the topic is added to
  \<^verbatim>\<open>topic_interests\<close> when it is new there.
\<close>

definition pkg_update_knowledge :: "timestamp \<Rightarrow> string \<Rightarrow> stored_profile \<Rightarrow> outcome \<times> stored_profile" where
  "pkg_update_knowledge now tp p =
     (case st_knowledge_areas p of
        None \<Rightarrow> (Raised KeyError, p)
      | Some areas \<Rightarrow>
          (let areas = (case areas tp of
                          None \<Rightarrow>
                            areas(tp \<mapsto> \<lparr>area_interactions = 1, last_interaction = now,
                                            estimated_skill = ''beginner''\<rparr>)
                        | Some a \<Rightarrow>
                            areas(tp \<mapsto> a\<lparr>area_interactions := area_interactions a + 1,
                                             last_interaction := now\<rparr>));
               p = p\<lparr>st_knowledge_areas := Some areas\<rparr>
           in case st_topic_interests p of
                None \<Rightarrow> (Raised KeyError, p)
              | Some interests \<Rightarrow>
                  (Done, p\<lparr>st_topic_interests :=
                              Some (if tp \<in> set interests then interests else interests @ [tp])\<rparr>)))"

text \<open>
  \<^verbatim>\<open>if len(xs) > 100: xs = xs[-100:]\<close>, applied to the session history and to the
  feedback list after an entry is appended.
\<close>

definition keep_last_100 :: "'a list \<Rightarrow> 'a list" where
  "keep_last_100 xs = (if 100 < length xs then last_n 100 xs else xs)"

text \<open>The session entry of an interaction; an educational one carries its topic.\<close>

definition pkg_session_entry :: "timestamp \<Rightarrow> string \<Rightarrow> json \<Rightarrow> dict" where
  "pkg_session_entry now query query_type =
     [(''timestamp'', JStr now), (''query'', JStr query), (''query_type'', query_type)]
     @ (if query_type = JStr ''educational'' then [(''topic'', JStr (pkg_infer_topic query))] else [])"

text \<open>
  \<^verbatim>\<open>_update_profile_from_interaction\<close>: the session entry is appended and the history is
  cut to its last 100 entries. Each key is read where the source reads it, so an exception
  leaves the mutations made before it.
\<close>

definition pkg_update_profile_from_interaction ::
  "bool \<Rightarrow> timestamp \<Rightarrow> string \<Rightarrow> json \<Rightarrow> stored_profile \<Rightarrow> outcome \<times> stored_profile" where
  "pkg_update_profile_from_interaction makedirs_ok now query response p0 =
     (case st_interactions_count p0 of
        None \<Rightarrow> (Raised KeyError, p0)
      | Some n \<Rightarrow>
          (let p = p0\<lparr>st_interactions_count := Some (n + 1)\<rparr> in
           case response of
             JDict r \<Rightarrow>
               (let query_type = response_get r ''query_type'' (JStr ''educational'')
                in case pkg_count_interaction_type query_type p of
                     (Raised e, p) \<Rightarrow> (Raised e, p)
                   | (Done, p) \<Rightarrow>
                       (let (learned, p) =
                              (if query_type = JStr ''educational''
                               then pkg_update_knowledge now (pkg_infer_topic query) p
                               else (Done, p))
                        in case learned of
                             Raised e \<Rightarrow> (Raised e, p)
                           | Done \<Rightarrow>
                               (case st_session_history p of
                                  None \<Rightarrow> (Raised KeyError, p)
                                | Some history \<Rightarrow>
                                    (pkg_save_user_profile makedirs_ok,
                                     p\<lparr>st_session_history :=
                                         Some (keep_last_100
                                                 (history @ [pkg_session_entry now query query_type]))\<rparr>))))
           | _ \<Rightarrow> (Raised AttributeError, p)))"

definition pkg_greeting_response :: json where
  "pkg_greeting_response =
     JDict [(''query_type'', JStr ''greeting''),
            (''response'', JStr ''Hello! How can I help with your learning today?'')]"

definition pkg_non_educational_response :: json where
  "pkg_non_educational_response =
     JDict [(''query_type'', JStr ''non_educational''),
            (''response'', JStr ''I'm your AI learning assistant, designed to help you understand educational concepts in a personalized way.'')]"

text \<open>The basic response reads \<^verbatim>\<open>skill_level\<close> and \<^verbatim>\<open>preferred_learning_styles\<close>.\<close>

definition basic_response :: "string \<Rightarrow> stored_profile \<Rightarrow> py_error + json" where
  "basic_response query p =
     (case st_skill_level p of
        None \<Rightarrow> Inl KeyError
      | Some level \<Rightarrow>
          (case st_preferred_learning_styles p of
             None \<Rightarrow> Inl KeyError
           | Some styles \<Rightarrow>
               Inr (JDict [(''query_type'', JStr ''educational''),
                           (''level'', JStr level),
                           (''learning_style'', JList styles),
                           (''tailored_instruction'', JStr ''Explain this concept clearly with examples.''),
                           (''tailored_query'', JStr query)])))"

text \<open>What a call returns when its last statements are an update and a \<^verbatim>\<open>return\<close>.\<close>

definition update_then_return ::
  "bool \<Rightarrow> timestamp \<Rightarrow> string \<Rightarrow> json \<Rightarrow> stored_profile \<Rightarrow> (py_error + json) \<times> stored_profile" where
  "update_then_return makedirs_ok now query response p =
     (case pkg_update_profile_from_interaction makedirs_ok now query response p of
        (Done, p') \<Rightarrow> (Inr response, p')
      | (Raised e, p') \<Rightarrow> (Inl e, p'))"

text \<open>
  \<^verbatim>\<open>process_query\<close>. The two keyword checks and their updates run outside the \<^verbatim>\<open>try\<close>.
  Inside it, a \<^verbatim>\<open>JSONDecodeError\<close> leads to a basic response and an update; an exception
  of the chain, of the update of a parsed response, or of the handler of
  \<^verbatim>\<open>JSONDecodeError\<close> leads to the handler of \<^verbatim>\<open>except Exception\<close>, which builds the same
  basic response from the profile as it is then and updates once more, outside any
  \<^verbatim>\<open>try\<close>.
\<close>

definition exception_handler ::
  "bool \<Rightarrow> timestamp \<Rightarrow> string \<Rightarrow> stored_profile \<Rightarrow> (py_error + json) \<times> stored_profile" where
  "exception_handler makedirs_ok now query p =
     (case basic_response query p of
        Inl e \<Rightarrow> (Inl e, p)
      | Inr response \<Rightarrow> update_then_return makedirs_ok now query response p)"

definition pkg_process_query ::
  "bool \<Rightarrow> call_env \<Rightarrow> string \<Rightarrow> stored_profile \<Rightarrow> (py_error + json) \<times> stored_profile" where
  "pkg_process_query makedirs_ok env query p =
     (if pkg_is_greeting_or_casual query
      then update_then_return makedirs_ok (env_now env) query pkg_greeting_response p
      else if pkg_is_non_educational query
      then update_then_return makedirs_ok (env_now env) query pkg_non_educational_response p
      else
        (case env_chain env of
           ChainRaises \<Rightarrow> exception_handler makedirs_ok (env_now env) query p
         | ChainReturns chain_response \<Rightarrow>
             (case env_loads env chain_response of
                None \<Rightarrow>
                  (case basic_response query p of
                     Inl e \<Rightarrow> exception_handler makedirs_ok (env_now env) query p
                   | Inr response \<Rightarrow>
                       (case pkg_update_profile_from_interaction makedirs_ok (env_now env) query
                               response p of
                          (Done, p') \<Rightarrow> (Inr response, p')
                        | (Raised e, p') \<Rightarrow> exception_handler makedirs_ok (env_now env) query p'))
              | Some parsed_response \<Rightarrow>
                  (case pkg_update_profile_from_interaction makedirs_ok (env_now env) query
                          parsed_response p of
                     (Done, p') \<Rightarrow> (Inr parsed_response, p')
                   | (Raised e, p') \<Rightarrow> exception_handler makedirs_ok (env_now env) query p'))))"

text \<open>
  \<^verbatim>\<open>provide_feedback\<close>: the feedback list is cut to its last 100 entries; an unhelpful
  answer resets the topic's estimated skill and records the topic for improvement.
\<close>

definition pkg_reset_topic :: "string \<Rightarrow> stored_profile \<Rightarrow> outcome \<times> stored_profile" where
  "pkg_reset_topic tp p =
     (case st_knowledge_areas p of
        None \<Rightarrow> (Raised KeyError, p)
      | Some areas \<Rightarrow>
          (let p = (case areas tp of
                      None \<Rightarrow> p
                    | Some a \<Rightarrow>
                        p\<lparr>st_knowledge_areas := Some (areas(tp \<mapsto> a\<lparr>estimated_skill := ''beginner''\<rparr>))\<rparr>)
           in case st_areas_for_improvement p of
                None \<Rightarrow> (Raised KeyError, p)
              | Some topics_to_improve \<Rightarrow>
                  (Done, p\<lparr>st_areas_for_improvement :=
                              Some (if tp \<in> set topics_to_improve then topics_to_improve
                                    else topics_to_improve @ [tp])\<rparr>)))"

definition pkg_provide_feedback ::
  "bool \<Rightarrow> timestamp \<Rightarrow> string \<Rightarrow> bool \<Rightarrow> string option \<Rightarrow> stored_profile \<Rightarrow> outcome \<times> stored_profile" where
  "pkg_provide_feedback makedirs_ok now query was_helpful fb p =
     (case st_feedback p of
        None \<Rightarrow> (Raised KeyError, p)
      | Some entries \<Rightarrow>
          (let entries = entries @
                 [[(''timestamp'', JStr now), (''query'', JStr query),
                   (''was_helpful'', JBool was_helpful), (''feedback_text'', feedback_text fb)]];
               p = p\<lparr>st_feedback := Some (keep_last_100 entries)\<rparr>;
               (reset, p) = (if \<not> was_helpful then pkg_reset_topic (pkg_infer_topic query) p
                             else (Done, p))
           in case reset of
                Raised e \<Rightarrow> (Raised e, p)
              | Done \<Rightarrow> (pkg_save_user_profile makedirs_ok, p)))"

subsection \<open>Sample data\<close>

text \<open>The profile both agents create for a new user, as far as it is modelled.\<close>

definition new_profile :: profile where
  "new_profile =
     \<lparr>name = Some ''User'', interactions_count = 0, skill_level = ''beginner'',
      preferred_learning_styles = [JStr ''visual'', JStr ''textual''],
      interaction_types =
        Some [(JStr ''educational'', 0), (JStr ''greeting'', 0), (JStr ''non_educational'', 0)],
      session_history = [], profile_knowledge_areas = Map.empty, topic_interests = [],
      areas_for_improvement = [], feedback = Some []\<rparr>"

text \<open>An educational answer of the chain that names a level.\<close>

definition educational_response :: "string \<Rightarrow> json" where
  "educational_response level = JDict [(''query_type'', JStr ''educational''), (''level'', JStr level)]"

text \<open>The feedback list of a profile, empty when the key is absent.\<close>

definition feedback_entries :: "profile \<Rightarrow> dict list" where
  "feedback_entries p = (case feedback p of None \<Rightarrow> [] | Some es \<Rightarrow> es)"

text \<open>The two logs of a stored profile, empty when the key is absent.\<close>

definition stored_feedback_entries :: "stored_profile \<Rightarrow> dict list" where
  "stored_feedback_entries p = (case st_feedback p of None \<Rightarrow> [] | Some es \<Rightarrow> es)"

definition stored_history :: "stored_profile \<Rightarrow> dict list" where
  "stored_history p = (case st_session_history p of None \<Rightarrow> [] | Some h \<Rightarrow> h)"

text \<open>A key of a returned response.\<close>

definition field :: "json \<Rightarrow> string \<Rightarrow> json option" where
  "field response k = (case response of JDict r \<Rightarrow> map_of r k | _ \<Rightarrow> None)"

text \<open>A call in which the chain returns braces that \<^verbatim>\<open>json.loads\<close> rejects.\<close>

definition bad_json_env :: call_env where
  "bad_json_env =
     \<lparr>env_loads = (\<lambda>s. None), env_extract_topic = (\<lambda>q. q),
      env_chain = ChainReturns ''{level: }'', env_now = ''t1''\<rparr>"

text \<open>A user whose profile says advanced and auditory.\<close>

definition advanced_user :: profile where
  "advanced_user =
     new_profile\<lparr>skill_level := ''advanced'', preferred_learning_styles := [JStr ''auditory'']\<rparr>"

text \<open>
  A stored profile that holds every key the agent of personalization/agent.py reads while
  it processes a query.
\<close>

definition pkg_complete :: "stored_profile \<Rightarrow> bool" where
  "pkg_complete p \<longleftrightarrow>
     st_interactions_count p \<noteq> None \<and> st_interaction_types p \<noteq> None
     \<and> st_knowledge_areas p \<noteq> None \<and> st_topic_interests p \<noteq> None
     \<and> st_session_history p \<noteq> None \<and> st_skill_level p \<noteq> None
     \<and> st_preferred_learning_styles p \<noteq> None"


section \<open>Knowledge tracker\<close>

lemma get_success_rate_unit:
  "rate_in_unit d \<Longrightarrow> 0 \<le> get_success_rate d \<and> get_success_rate d \<le> 1"
  by (simp add: rate_in_unit_def get_success_rate_def split: option.splits)

lemma update_area_unit:
  assumes "0 \<le> proficiency a" and "0 \<le> s"
  shows "0 \<le> proficiency (update_area now s a) \<and> proficiency (update_area now s a) \<le> 1"
proof -
  have "0 \<le> s * learning_rate"
    using assms(2) by (simp add: learning_rate_def)
  with assms(1) have "0 \<le> proficiency a + s * learning_rate"
    by linarith
  then show ?thesis
    by (simp add: update_area_def)
qed

lemma track_profile_ok:
  assumes "proficiency_ok p" and "rate_in_unit d"
  shows "proficiency_ok (track_profile now d p)"
proof -
  let ?d = "d\<lparr>stamp := Some now\<rparr>"
  have rate: "0 \<le> get_success_rate ?d"
    using get_success_rate_unit [OF assms(2)] by (simp add: get_success_rate_def)
  have "0 \<le> proficiency a \<and> proficiency a \<le> 1"
    if "track_areas now ?d (knowledge_areas p) t = Some a" for t a
  proof (cases "get_topic ?d \<noteq> [] \<and> t = get_topic ?d")
    case True
    define old where "old = (case knowledge_areas p t of None \<Rightarrow> new_area now | Some b \<Rightarrow> b)"
    have "0 \<le> proficiency old"
      using assms(1) by (auto simp: old_def proficiency_ok_def new_area_def split: option.splits)
    moreover have "a = update_area now (get_success_rate ?d) old"
      using that True by (simp add: track_areas_def Let_def old_def)
    ultimately show ?thesis
      using update_area_unit [of old "get_success_rate ?d" now] rate by simp
  next
    case False
    then have "knowledge_areas p t = Some a"
      using that by (auto simp: track_areas_def Let_def split: if_splits)
    then show ?thesis
      using assms(1) by (simp add: proficiency_ok_def)
  qed
  then show ?thesis
    by (simp add: proficiency_ok_def track_profile_def Let_def)
qed

lemma default_profile_ok: "proficiency_ok default_profile"
  by (simp add: proficiency_ok_def default_profile_def)

lemma track_learning_progress_ok:
  assumes "store_ok store" and "rate_in_unit (call_data c)"
  shows "proficiency_ok (fst (track_learning_progress store c))
         \<and> store_ok (snd (track_learning_progress store c))"
proof -
  have "proficiency_ok (get_advanced_user_profile store (call_user c))"
    using assms(1) default_profile_ok
    by (auto simp: get_advanced_user_profile_def store_ok_def split: option.splits)
  then have ok: "proficiency_ok (fst (track_learning_progress store c))"
    using assms(2) by (simp add: track_learning_progress_def Let_def track_profile_ok)
  moreover have "store_ok (snd (track_learning_progress store c))"
    using assms(1) ok
    by (auto simp: track_learning_progress_def Let_def save_advanced_profile_def store_ok_def
        split: write_result.splits)
  ultimately show ?thesis by simp
qed

text \<open>
  C1. Whatever the stored profiles are, as long as every stored proficiency lies in [0,1]
  and every success rate handed to \<^verbatim>\<open>track_learning_progress\<close> lies in [0,1] (an absent
  one counts as 0.5), every profile returned by a sequence of calls, for any users and
  whether or not the writes succeed, has all its proficiencies in [0,1], and so has every
  profile left in the store.
\<close>

theorem proficiency_stays_in_unit_interval:
  assumes "store_ok store" and "\<forall>c \<in> set cs. rate_in_unit (call_data c)"
  shows "(\<forall>p \<in> set (fst (track_calls store cs)). proficiency_ok p)
         \<and> store_ok (snd (track_calls store cs))"
  using assms
proof (induction cs arbitrary: store)
  case Nil
  then show ?case by simp
next
  case (Cons c cs)
  obtain p store' where step: "track_learning_progress store c = (p, store')"
    by (cases "track_learning_progress store c")
  have "rate_in_unit (call_data c)"
    using Cons.prems(2) by simp
  then have one: "proficiency_ok p \<and> store_ok store'"
    using track_learning_progress_ok [OF Cons.prems(1), of c] step by simp
  have rest: "(\<forall>q \<in> set (fst (track_calls store' cs)). proficiency_ok q)
              \<and> store_ok (snd (track_calls store' cs))"
    using Cons.IH [of store'] one Cons.prems(2) by simp
  show ?case
    using one rest step by (simp add: split_beta)
qed

theorem proficiency_stays_in_unit_interval_witness:
  "store_ok [''u1'' \<mapsto> near_top]
   \<and> rate_in_unit (call_data full_marks)
   \<and> list_all proficiency_ok (fst (track_calls [''u1'' \<mapsto> near_top] [full_marks, full_marks]))
   \<and> store_ok (snd (track_calls [''u1'' \<mapsto> near_top] [full_marks, full_marks]))"
proof -
  have h1: "store_ok [''u1'' \<mapsto> near_top]"
    by (simp add: store_ok_def proficiency_ok_def near_top_def)
  have h2: "rate_in_unit (call_data full_marks)"
    by (simp add: full_marks_def rate_in_unit_def)
  then have h3: "\<forall>c \<in> set [full_marks, full_marks]. rate_in_unit (call_data c)"
    by simp
  show ?thesis
    using proficiency_stays_in_unit_interval [OF h1 h3] h1 h2
    by (simp only: list_all_iff) blast
qed

text \<open>
  In exact arithmetic the scenario gives 0.15: the area is created with proficiency 0.1
  and no interaction, and the update adds \<open>0.5 * 0.1\<close> and counts the interaction.
\<close>

lemma recursion_scenario_exact_arithmetic:
  "knowledge_areas
     (fst (track_learning_progress Map.empty
        \<lparr>call_user = u, call_now = now,
         call_data = \<lparr>topic = Some ''recursion'', success_rate = Some 0.5, stamp = None\<rparr>,
         call_write = w\<rparr>)) ''recursion''
   = Some \<lparr>proficiency = 0.15, interactions = 1, last_practiced = now\<rparr>
   \<and> new_area now = \<lparr>proficiency = 0.1, interactions = 0, last_practiced = now\<rparr>
   \<and> update_area now 0.5 (new_area now) = \<lparr>proficiency = 0.15, interactions = 1, last_practiced = now\<rparr>"
  by (simp add: track_learning_progress_def get_advanced_user_profile_def default_profile_def
      track_profile_def track_areas_def get_topic_def get_success_rate_def new_area_def
      update_area_def learning_rate_def Let_def)

lemma lit_0_1_value: "lit_0_1 = (7205759403792794, -56)"
  by (simp add: lit_0_1_def literal_def round_to_53_def bit_length.simps Let_def)

lemma lit_0_5_value: "lit_0_5 = (4503599627370496, -53)"
  by (simp add: lit_0_5_def literal_def round_to_53_def bit_length.simps Let_def)

lemma lit_1_0_value: "lit_1_0 = (4503599627370496, -52)"
  by (simp add: lit_1_0_def literal_def round_to_53_def bit_length.simps Let_def)

lemma lit_0_15_value: "lit_0_15 = (5404319552844595, -55)"
  by (simp add: lit_0_15_def literal_def round_to_53_def bit_length.simps Let_def)

lemma literal_values:
  "value_of lit_0_1 = 3602879701896397 / 2 ^ 55
   \<and> value_of lit_0_5 = 1 / 2
   \<and> value_of lit_1_0 = 1
   \<and> value_of lit_0_15 = 5404319552844595 / 2 ^ 55"
  by (simp add: lit_0_1_value lit_0_5_value lit_1_0_value lit_0_15_value value_of_def)

lemma product_value: "fl_mul lit_0_5 lit_0_1 = (7205759403792794, -57)"
  by (simp add: lit_0_5_value lit_0_1_value fl_mul_def round_to_53_def bit_length.simps Let_def)

lemma sum_value: "fl_add lit_0_1 (7205759403792794, -57) = (5404319552844596, -55)"
  by (simp add: lit_0_1_value fl_add_def round_to_53_def bit_length.simps Let_def)

lemma clamp_value: "py_min lit_1_0 (5404319552844596, -55) = (5404319552844596, -55)"
  by (simp add: py_min_def lit_1_0_value value_of_def)

lemma scenario_proficiency:
  "py_min lit_1_0 (fl_add lit_0_1 (fl_mul lit_0_5 lit_0_1)) = (5404319552844596, -55)"
  by (simp only: product_value sum_value clamp_value)

text \<open>
  C2, as the code has it. For a user without knowledge areas, one call on topic
  "recursion" with success rate 0.5 leaves a "recursion" area with one interaction: the
  area is created with the float 0.1 as proficiency and no interaction, and the update
  then counts the interaction and stores the float sum of 0.1 and the float product of
  0.5 and 0.1. That sum is 5404319552844596 / \<open>2 ^ 55\<close>, which Python prints as
  0.15000000000000002; it lies \<open>1 / (5 * 2 ^ 53)\<close> above 0.15.
\<close>

theorem new_user_recursion_scenario_in_floats:
  "track_areas64 now ''recursion'' lit_0_5 Map.empty ''recursion''
     = Some \<lparr>proficiency64 = (5404319552844596, -55), interactions64 = 1, last_practiced64 = now\<rparr>
   \<and> new_area64 now = \<lparr>proficiency64 = lit_0_1, interactions64 = 0, last_practiced64 = now\<rparr>
   \<and> update_area64 now lit_0_5 (new_area64 now)
     = \<lparr>proficiency64 = (5404319552844596, -55), interactions64 = 1, last_practiced64 = now\<rparr>
   \<and> value_of lit_0_1 = 3602879701896397 / 2 ^ 55
   \<and> value_of (5404319552844596, -55) = 5404319552844596 / 2 ^ 55
   \<and> value_of (5404319552844596, -55) - 15 / 100 = 1 / (5 * 2 ^ 53)"
proof -
  have "update_area64 now lit_0_5 (new_area64 now)
     = \<lparr>proficiency64 = (5404319552844596, -55), interactions64 = 1, last_practiced64 = now\<rparr>"
    by (simp add: new_area64_def update_area64_def scenario_proficiency)
  moreover from this have "track_areas64 now ''recursion'' lit_0_5 Map.empty ''recursion''
     = Some \<lparr>proficiency64 = (5404319552844596, -55), interactions64 = 1, last_practiced64 = now\<rparr>"
    by (simp add: track_areas64_def)
  moreover have "value_of lit_0_1 = 3602879701896397 / 2 ^ 55"
    by (simp add: lit_0_1_value value_of_def)
  moreover have "value_of (5404319552844596, -55) = 5404319552844596 / 2 ^ 55"
    "value_of (5404319552844596, -55) - 15 / 100 = 1 / (5 * 2 ^ 53)"
    by (simp_all add: value_of_def)
  ultimately show ?thesis
    by (simp add: new_area64_def)
qed

text \<open>
  C2 as stated fails: the proficiency the call stores is not the float that the literal
  \<^verbatim>\<open>0.15\<close> denotes, which is 5404319552844595 / \<open>2 ^ 55\<close>, so \<^verbatim>\<open>proficiency == 0.15\<close> is
  false.
\<close>

theorem proficiency_differs_from_0_15_counterexample:
  "value_of lit_0_15 = 5404319552844595 / 2 ^ 55
   \<and> value_of (proficiency64 (update_area64 ''t1'' lit_0_5 (new_area64 ''t1'')))
       = 5404319552844596 / 2 ^ 55
   \<and> value_of (proficiency64 (update_area64 ''t1'' lit_0_5 (new_area64 ''t1'')))
       \<noteq> value_of lit_0_15"
proof -
  have "proficiency64 (update_area64 ''t1'' lit_0_5 (new_area64 ''t1'')) = (5404319552844596, -55)"
    by (simp add: new_area64_def update_area64_def scenario_proficiency)
  then show ?thesis
    by (simp add: value_of_def lit_0_15_value)
qed

section \<open>Learning velocity\<close>











section \<open>Fallback file store\<close>

lemma safe_user_id_chars:
  "c \<in> set (safe_user_id isalnum user_id) \<Longrightarrow> isalnum c \<or> c \<in> set ''._-@''"
  by (auto simp: safe_user_id_def split: if_splits)

lemma safe_user_id_free_of:
  assumes "\<not> isalnum x" and "x \<notin> set ''._-@''" and "x \<noteq> CHR ''_''"
  shows "x \<notin> set (safe_user_id isalnum user_id)"
  using assms by (auto simp: safe_user_id_def split: if_splits)

text \<open>
  C10. For every user id the file name is "user\_", the sanitized id, ".json", and every
  character of the sanitized id is alphanumeric or one of . \_ - @. As the slash and the
  backslash are not alphanumeric, the file name contains neither, so the path is the
  fallback directory, one slash, and a single component that is neither "." nor "..".
\<close>

theorem fallback_file_stays_in_directory:
  assumes "\<not> isalnum CHR ''/''" and "\<not> isalnum backslash"
  shows "file_name isalnum user_id = ''user_'' @ safe_user_id isalnum user_id @ ''.json''
         \<and> (\<forall>c \<in> set (safe_user_id isalnum user_id).
               isalnum c \<or> c = CHR ''.'' \<or> c = CHR ''_'' \<or> c = CHR ''-'' \<or> c = CHR ''@'')
         \<and> CHR ''/'' \<notin> set (file_name isalnum user_id)
         \<and> backslash \<notin> set (file_name isalnum user_id)
         \<and> file_name isalnum user_id \<noteq> ''.'' \<and> file_name isalnum user_id \<noteq> ''..''
         \<and> file_path isalnum user_id = fallback_directory @ ''/'' @ file_name isalnum user_id"
proof -
  have chars: "\<forall>c \<in> set (safe_user_id isalnum user_id).
                 isalnum c \<or> c = CHR ''.'' \<or> c = CHR ''_'' \<or> c = CHR ''-'' \<or> c = CHR ''@''"
    using safe_user_id_chars [of _ isalnum user_id] by auto
  have slash: "CHR ''/'' \<notin> set (safe_user_id isalnum user_id)"
    using assms(1) by (intro safe_user_id_free_of) simp_all
  have bsl: "backslash \<notin> set (safe_user_id isalnum user_id)"
    using assms(2) by (intro safe_user_id_free_of) (simp_all add: backslash_def)
  have path: "file_path isalnum user_id = fallback_directory @ ''/'' @ file_name isalnum user_id"
    by (simp add: file_path_def path_join_def file_name_def fallback_directory_def)
  show ?thesis
    using chars slash bsl path by (simp add: file_name_def backslash_def)
qed

theorem fallback_file_stays_in_directory_witness:
  "\<not> ascii_alnum CHR ''/'' \<and> \<not> ascii_alnum backslash
   \<and> file_name ascii_alnum ''../a/b'' = ''user_.._a_b.json''
   \<and> CHR ''/'' \<notin> set (file_name ascii_alnum ''../a/b'')
   \<and> file_path ascii_alnum ''../a/b'' = ''user_profiles/user_.._a_b.json''"
proof -
  have h1: "\<not> ascii_alnum CHR ''/''"
    by (simp add: ascii_alnum_def)
  have h2: "\<not> ascii_alnum backslash"
    by (simp add: ascii_alnum_def backslash_def)
  have name: "file_name ascii_alnum ''../a/b'' = ''user_.._a_b.json''"
    by (simp add: file_name_def safe_user_id_def ascii_alnum_def)
  show ?thesis
    using fallback_file_stays_in_directory [OF h1 h2, of "''../a/b''"] h1 h2 name
    by (simp add: fallback_directory_def)
qed

section \<open>Profile migration\<close>

lemma map_of_merge_with_default:
  "map_of (merge_with_default dflt existing) k =
     (case map_of existing k of Some v \<Rightarrow> Some v | None \<Rightarrow> map_of dflt k)"
proof (induction dflt arbitrary: existing)
  case Nil
  then show ?case by (simp split: option.splits)
next
  case (Cons item dflt)
  obtain key val where item: "item = (key, val)"
    by (cases item)
  show ?case
    unfolding item
    by (simp add: Cons.IH AList.update_conv' split: option.splits)
qed

lemma map_of_migrate_keys:
  "map_of (migrate_keys keys old e) k =
     (if k \<in> set keys
      then (case map_of old k of Some v \<Rightarrow> Some v | None \<Rightarrow> map_of e k)
      else map_of e k)"
proof (induction keys arbitrary: e)
  case Nil
  then show ?case by simp
next
  case (Cons key keys)
  show ?case
    by (simp add: Cons.IH AList.update_conv' split: option.splits)
qed

text \<open>
  C9, as the code has it. Loading an advanced profile is additive at the top level: a key
  the stored object has keeps its stored value, and a key it lacks gets the default value.
  Migrating to the enhanced structure is not: it keeps the stored value of the five keys
  \<^verbatim>\<open>created_at\<close>, \<^verbatim>\<open>interactions_count\<close>, \<^verbatim>\<open>skill_level\<close>, \<^verbatim>\<open>knowledge_areas\<close> and
  \<^verbatim>\<open>session_history\<close>, sets \<^verbatim>\<open>updated_at\<close> to the current time, and gives every other
  key the value of a new enhanced profile.
\<close>

theorem migration_lookup:
  "map_of (get_advanced_user_profile_dict user_id now (Some existing)) k =
     (case map_of existing k of
        Some v \<Rightarrow> Some v
      | None \<Rightarrow> map_of (default_profile_dict user_id now) k)
   \<and> map_of (migrate_profile_structure now old) k =
     (if k = ''updated_at'' then Some (JStr now)
      else if k \<in> set migrated_keys
      then (case map_of old k of
              Some v \<Rightarrow> Some v
            | None \<Rightarrow> map_of (create_enhanced_profile now) k)
      else map_of (create_enhanced_profile now) k)"
  by (simp add: get_advanced_user_profile_dict_def map_of_merge_with_default
      migrate_profile_structure_def AList.update_conv' map_of_migrate_keys)

theorem migration_lookup_witness:
  "map_of (get_advanced_user_profile_dict ''u1'' ''t1'' (Some auditory_profile)) ''learning_style''
     = Some (JList [JStr ''auditory''])
   \<and> map_of (get_advanced_user_profile_dict ''u1'' ''t1'' (Some auditory_profile)) ''user_id''
     = Some (JStr ''u1'')
   \<and> map_of (migrate_profile_structure ''t1'' auditory_profile) ''interactions_count''
     = Some (JNum 12)"
  using migration_lookup [of "''u1''" "''t1''" auditory_profile "''learning_style''" auditory_profile]
    migration_lookup [of "''u1''" "''t1''" auditory_profile "''user_id''" auditory_profile]
    migration_lookup [of "''u1''" "''t1''" auditory_profile "''interactions_count''" auditory_profile]
  by (simp add: auditory_profile_def default_profile_dict_def migrated_keys_def)

text \<open>
  C9 as stated fails on the enhanced agent: a stored learning style "auditory" comes out
  of the migration as the default "visual".
\<close>

theorem migration_overwrites_counterexample:
  "map_of auditory_profile ''learning_style'' = Some (JList [JStr ''auditory''])
   \<and> map_of (migrate_profile_structure ''t1'' auditory_profile) ''learning_style''
     = Some (JList [JStr ''visual''])"
  by (simp add: auditory_profile_def migrate_profile_structure_def migrated_keys_def
      create_enhanced_profile_def)

section \<open>Recommendations\<close>

lemma pad_next_steps_length: "3 \<le> length (pad_next_steps next_steps)"
proof (induction next_steps rule: pad_next_steps.induct)
  case (1 next_steps)
  show ?case
  proof (cases "length next_steps < 3")
    case True
    show ?thesis
    proof (cases "find (\<lambda>step. step \<notin> set next_steps) general_steps")
      case None
      show ?thesis
        by (rule "1.IH"(1) [OF True None])
    next
      case (Some step)
      then show ?thesis
        using True "1.IH"(2) by (subst pad_next_steps.simps) simp
    qed
  next
    case False
    then show ?thesis
      by (subst pad_next_steps.simps) simp
  qed
qed

lemma get_next_steps_length: "length (get_next_steps gemini ctx) = 3"
  using pad_next_steps_length by (simp add: get_next_steps_def Let_def)

lemma pad_one:
  "pad_next_steps [''Complete the CS Fundamentals interactive tutorial''] =
     [''Complete the CS Fundamentals interactive tutorial'',
      ''Take a practice quiz to identify knowledge gaps'',
      ''Complete a learning assessment to update your profile'']"
  by (simp add: pad_next_steps.simps general_steps_def)

lemma pad_two:
  assumes "x \<noteq> ''Take a practice quiz to identify knowledge gaps''"
  shows "pad_next_steps [x, ''Complete the CS Fundamentals interactive tutorial''] =
     [x, ''Complete the CS Fundamentals interactive tutorial'',
      ''Take a practice quiz to identify knowledge gaps'']"
  using assms by (simp add: pad_next_steps.simps general_steps_def)

lemma default_next_steps:
  "get_next_steps gemini create_default_context =
     (case extract_topic_from_goal gemini 1 ''Master coding concepts'' of
        None \<Rightarrow> pad_next_steps [''Complete the CS Fundamentals interactive tutorial'']
      | Some t \<Rightarrow>
          if t = [] then pad_next_steps [''Complete the CS Fundamentals interactive tutorial'']
          else pad_next_steps [''Take the '' @ title t @ '' assessment quiz'',
                 ''Complete the CS Fundamentals interactive tutorial''])"
proof -
  have cs: "take 3 (pad_next_steps [''Complete the CS Fundamentals interactive tutorial''])
            = pad_next_steps [''Complete the CS Fundamentals interactive tutorial'']"
    by (simp add: pad_one)
  have tk: "take 3 (pad_next_steps [''Take the '' @ title t @ '' assessment quiz'',
                 ''Complete the CS Fundamentals interactive tutorial''])
            = pad_next_steps [''Take the '' @ title t @ '' assessment quiz'',
                 ''Complete the CS Fundamentals interactive tutorial'']" for t
    by (subst (1 2) pad_two) simp_all
  show ?thesis
    unfolding get_next_steps_def create_default_context_def get_weak_topics_def get_goals_def
      get_skill_level_def Let_def
    by (simp split: option.splits add: cs) (use tk in simp)
qed

lemma default_next_steps_distinct: "distinct (get_next_steps gemini create_default_context)"
  unfolding default_next_steps
  by (simp add: pad_one pad_two split: option.splits)

lemma flashcards_nonempty: "get_flashcard_recommendations gemini ctx \<noteq> []"
  by (simp add: get_flashcard_recommendations_def Let_def)

lemma games_nonempty: "get_game_recommendations ctx \<noteq> []"
  by (simp add: get_game_recommendations_def Let_def)

lemma resources_nonempty: "get_resource_recommendations ctx \<noteq> []"
  by (simp add: get_resource_recommendations_def Let_def)

text \<open>
  C8. For the context of a new user, with or without a Gemini model and whatever the model
  answers, the recommendations hold at least one flashcard, one game and one resource,
  and exactly three next steps, no two of them equal.
\<close>

theorem default_context_recommendations:
  "flashcards (get_personalized_recommendations gemini create_default_context) \<noteq> []
   \<and> games (get_personalized_recommendations gemini create_default_context) \<noteq> []
   \<and> resources (get_personalized_recommendations gemini create_default_context) \<noteq> []
   \<and> length (nextSteps (get_personalized_recommendations gemini create_default_context)) = 3
   \<and> distinct (nextSteps (get_personalized_recommendations gemini create_default_context))"
  by (simp add: get_personalized_recommendations_def flashcards_nonempty games_nonempty
      resources_nonempty get_next_steps_length default_next_steps_distinct)

theorem default_context_recommendations_witness:
  "flashcards (get_personalized_recommendations None create_default_context) = [general_flashcard]
   \<and> nextSteps (get_personalized_recommendations None create_default_context) =
       [''Complete the CS Fundamentals interactive tutorial'',
        ''Take a practice quiz to identify knowledge gaps'',
        ''Complete a learning assessment to update your profile'']
   \<and> nextSteps (get_personalized_recommendations (Some python_model) create_default_context) =
       [''Take the Python assessment quiz'',
        ''Complete the CS Fundamentals interactive tutorial'',
        ''Take a practice quiz to identify knowledge gaps'']"
proof -
  have none: "extract_topic_from_goal None n ''Master coding concepts'' = None" for n
    by (simp add: extract_topic_from_goal_def common_goal_topics_def lower_def lower_char_def
        ascii_uppercase_def ascii_lowercase_def)
  have py: "extract_topic_from_goal (Some python_model) n g = Some ''python''" for n g
    by (simp add: extract_topic_from_goal_def python_model_def)
  have ttl: "title ''python'' = ''Python''"
    by (simp add: title_def is_upper_def is_lower_def upper_char_def lower_char_def
        ascii_uppercase_def ascii_lowercase_def)
  have fc: "get_flashcard_recommendations None create_default_context = [general_flashcard]"
    by (simp add: get_flashcard_recommendations_def
        create_default_context_def get_weak_topics_def get_goals_def none Let_def)
  show ?thesis
    using default_context_recommendations [of None]
      default_context_recommendations [of "Some python_model"]
    by (simp add: fc get_personalized_recommendations_def default_next_steps none py ttl
        pad_one pad_two)
qed

section \<open>Skill level\<close>

lemma update_learning_styles_skill:
  "skill_level (snd (update_learning_styles r p)) = skill_level p
   \<and> interactions_count (snd (update_learning_styles r p)) = interactions_count p"
  by (simp add: update_learning_styles_def split: option.splits)

lemma count_interaction_type_skill:
  "skill_level (count_interaction_type qt p) = skill_level p"
  by (simp add: count_interaction_type_def Let_def)

lemma update_skill_level_cases:
  "skill_level (update_skill_level r p) = skill_level p
   \<or> (skill_level (update_skill_level r p) = ''intermediate'' \<and> skill_level p = ''beginner''
       \<and> 20 < interactions_count p \<and> map_of r ''level'' = Some (JStr ''intermediate''))
   \<or> (skill_level (update_skill_level r p) = ''advanced''
       \<and> 50 < interactions_count p \<and> map_of r ''level'' = Some (JStr ''advanced''))"
  by (simp add: update_skill_level_def Let_def)

text \<open>
  C3, as the code has it. An interaction leaves the skill level as it was, or makes it
  intermediate, which needs a beginner, more than 20 interactions counting this one, and
  an educational response whose level is "intermediate", or makes it advanced, which needs
  more than 50 interactions counting this one and an educational response whose level is
  "advanced". The level named by the response decides, not an average of past successes.
\<close>

theorem skill_level_changes:
  "skill_level (snd (update_profile_from_interaction now query response p)) = skill_level p
   \<or> (skill_level (snd (update_profile_from_interaction now query response p)) = ''intermediate''
       \<and> skill_level p = ''beginner'' \<and> 20 < interactions_count p + 1
       \<and> (\<exists>r. response = JDict r
              \<and> response_get r ''query_type'' (JStr ''educational'') = JStr ''educational''
              \<and> map_of r ''level'' = Some (JStr ''intermediate'')))
   \<or> (skill_level (snd (update_profile_from_interaction now query response p)) = ''advanced''
       \<and> 50 < interactions_count p + 1
       \<and> (\<exists>r. response = JDict r
              \<and> response_get r ''query_type'' (JStr ''educational'') = JStr ''educational''
              \<and> map_of r ''level'' = Some (JStr ''advanced'')))"
proof (cases response)
  case (JDict r)
  let ?p1 = "p\<lparr>interactions_count := interactions_count p + 1\<rparr>"
  show ?thesis
  proof (cases "response_get r ''query_type'' (JStr ''educational'') = JStr ''educational''")
    case True
    obtain st p2 where ls: "update_learning_styles r ?p1 = (st, p2)"
      by (cases "update_learning_styles r ?p1")
    have p2: "skill_level p2 = skill_level p" "interactions_count p2 = interactions_count p + 1"
      using update_learning_styles_skill [of r ?p1] ls by simp_all
    show ?thesis
    proof (cases st)
      case Done
      have "skill_level (snd (update_profile_from_interaction now query response p))
            = skill_level (update_skill_level r p2)"
        using JDict True ls Done
        by (simp add: update_profile_from_interaction_def Let_def)
      then show ?thesis
        using update_skill_level_cases [of r p2] p2 JDict True by auto
    next
      case (Raised e)
      then show ?thesis
        using JDict True ls p2 by (simp add: update_profile_from_interaction_def Let_def)
    qed
  next
    case False
    then show ?thesis
      using JDict
      by (simp add: update_profile_from_interaction_def Let_def count_interaction_type_skill)
  qed
qed (simp_all add: update_profile_from_interaction_def)

theorem skill_level_changes_witness:
  "skill_level (snd (update_profile_from_interaction ''t1'' ''explain sorting''
       (educational_response ''intermediate'') (new_profile\<lparr>interactions_count := 20\<rparr>))) = ''intermediate''
   \<and> skill_level (snd (update_profile_from_interaction ''t1'' ''explain sorting''
       (educational_response ''intermediate'') (new_profile\<lparr>interactions_count := 19\<rparr>))) = ''beginner''
   \<and> skill_level (snd (update_profile_from_interaction ''t1'' ''explain sorting''
       (educational_response ''advanced'') (new_profile\<lparr>interactions_count := 50\<rparr>))) = ''advanced''"
  using skill_level_changes [of "''t1''" "''explain sorting''" "educational_response ''intermediate''"
      "new_profile\<lparr>interactions_count := 20\<rparr>"]
    skill_level_changes [of "''t1''" "''explain sorting''" "educational_response ''intermediate''"
      "new_profile\<lparr>interactions_count := 19\<rparr>"]
    skill_level_changes [of "''t1''" "''explain sorting''" "educational_response ''advanced''"
      "new_profile\<lparr>interactions_count := 50\<rparr>"]
  by (simp add: update_profile_from_interaction_def educational_response_def new_profile_def
      response_get_def update_learning_styles_def update_skill_level_def Let_def)

text \<open>
  C3 as stated fails: the same profile, with 60 interactions and level beginner, becomes
  advanced after a response of level "advanced" and stays beginner after a response of
  level "beginner", so the new level is not a function of the profile state.
\<close>

theorem skill_level_depends_on_response_counterexample:
  "skill_level (snd (update_profile_from_interaction ''t1'' ''explain sorting''
       (educational_response ''advanced'') (new_profile\<lparr>interactions_count := 60\<rparr>))) = ''advanced''
   \<and> skill_level (snd (update_profile_from_interaction ''t1'' ''explain sorting''
       (educational_response ''beginner'') (new_profile\<lparr>interactions_count := 60\<rparr>))) = ''beginner''"
  by (simp add: update_profile_from_interaction_def educational_response_def new_profile_def
      response_get_def update_learning_styles_def update_skill_level_def Let_def)

section \<open>Greeting pre-check\<close>

lemma lower_history: "lower ''history'' = ''history''"
  by (simp add: lower_def lower_char_def ascii_uppercase_def ascii_lowercase_def)

lemma history_is_greeting: "is_greeting_or_casual ''history''"
  by (simp add: is_greeting_or_casual_def greetings_def lower_history)

lemma history_one_word: "split ''history'' = [''history'']"
  by (simp add: split_def is_space_def)

lemma update_greeting_history:
  "update_profile_from_interaction now query greeting_response p =
     (Done, (count_interaction_type (JStr ''greeting'')
               (p\<lparr>interactions_count := interactions_count p + 1\<rparr>))
        \<lparr>session_history := session_history p @
           [[(''timestamp'', JStr now), (''query'', JStr query), (''query_type'', JStr ''greeting'')]]\<rparr>)"
  by (simp add: update_profile_from_interaction_def greeting_response_def response_get_def Let_def
      count_interaction_type_def)

text \<open>
  C4 on the code. The query "history" has one word and contains the greeting "hi", so
  \<^verbatim>\<open>process_query\<close> returns the greeting response for it, whatever the chain, the profile
  and the time are.
\<close>

theorem history_classified_as_greeting:
  "fst (process_query env ''history'' p) =
     Inr (JDict [(''query_type'', JStr ''greeting''),
                 (''response'', JStr ''Hello! How can I help you learn today?'')])"
  by (simp add: process_query_def history_is_greeting history_one_word update_greeting_history
      greeting_response_def [symmetric])

section \<open>Bounded logs\<close>

lemma lower_hello: "lower ''hello'' = ''hello''"
  by (simp add: lower_def lower_char_def ascii_uppercase_def ascii_lowercase_def)

lemma hello_is_greeting: "is_greeting_or_casual ''hello''"
  by (simp add: is_greeting_or_casual_def greetings_def lower_hello)

lemma hello_one_word: "split ''hello'' = [''hello'']"
  by (simp add: split_def is_space_def)

text \<open>
  C6 on the code of personalization\_agent.py. With 100 entries in the session history, the
  query "hello" leaves 101; with 100 entries of feedback, one more feedback leaves 101.
\<close>

theorem root_logs_grow_past_cap:
  "length (session_history (snd (process_query env ''hello''
       (p\<lparr>session_history := replicate 100 entry\<rparr>)))) = 101
   \<and> length (feedback_entries (provide_feedback now query was_helpful fb
       (p\<lparr>feedback := Some (replicate 100 entry)\<rparr>))) = 101"
  by (simp add: process_query_def hello_is_greeting hello_one_word update_greeting_history
      provide_feedback_def feedback_entries_def count_interaction_type_def Let_def)

text \<open>
  The sibling agent of personalization/agent.py does keep both logs within 100 entries:
  whenever its \<^verbatim>\<open>process_query\<close> returns, the history is the old one with the new entry
  appended, cut from the front to 100 entries, and the same holds for its feedback list.
\<close>

lemma keep_last_100_snoc:
  "length (keep_last_100 (xs @ [x])) \<le> 100
   \<and> last (keep_last_100 (xs @ [x])) = x
   \<and> keep_last_100 (xs @ [x]) = drop (length xs + 1 - 100) (xs @ [x])"
  by (simp add: keep_last_100_def last_n_def last_drop)

lemma length_keep_last_100: "length (keep_last_100 xs) \<le> 100"
  by (simp add: keep_last_100_def last_n_def)

lemma pkg_count_history:
  "st_session_history (snd (pkg_count_interaction_type qt p)) = st_session_history p"
  by (simp add: pkg_count_interaction_type_def split: option.splits)

lemma pkg_knowledge_history:
  "st_session_history (snd (pkg_update_knowledge now tp p)) = st_session_history p"
  by (simp add: pkg_update_knowledge_def Let_def split: option.splits)

lemma pkg_update_done_history:
  assumes "pkg_update_profile_from_interaction mk now query response p = (Done, p')"
  shows "\<exists>qt old. st_session_history p = Some old
           \<and> st_session_history p' = Some (keep_last_100 (old @ [pkg_session_entry now query qt]))"
proof -
  obtain n where n: "st_interactions_count p = Some n"
    using assms by (cases "st_interactions_count p") (simp_all add: pkg_update_profile_from_interaction_def)
  obtain r where r: "response = JDict r"
    using assms n by (cases response) (simp_all add: pkg_update_profile_from_interaction_def Let_def)
  let ?p1 = "p\<lparr>st_interactions_count := Some (n + 1)\<rparr>"
  let ?qt = "response_get r ''query_type'' (JStr ''educational'')"
  obtain c p2 where c: "pkg_count_interaction_type ?qt ?p1 = (c, p2)"
    by (cases "pkg_count_interaction_type ?qt ?p1")
  have h2: "st_session_history p2 = st_session_history p"
    using pkg_count_history [of ?qt ?p1] c by simp
  have cd: "c = Done"
    using assms n r c by (cases c) (simp_all add: pkg_update_profile_from_interaction_def Let_def)
  obtain l p3 where l: "(if ?qt = JStr ''educational''
                         then pkg_update_knowledge now (pkg_infer_topic query) p2 else (Done, p2)) = (l, p3)"
    by (cases "(if ?qt = JStr ''educational''
                then pkg_update_knowledge now (pkg_infer_topic query) p2 else (Done, p2))")
  have h3: "st_session_history p3 = st_session_history p"
    using pkg_knowledge_history [of now "pkg_infer_topic query" p2] l h2 by (auto split: if_splits)
  have ld: "l = Done"
    using assms n r c cd l by (cases l) (simp_all add: pkg_update_profile_from_interaction_def Let_def)
  obtain old where old: "st_session_history p3 = Some old"
    using assms n r c cd l ld
    by (cases "st_session_history p3") (simp_all add: pkg_update_profile_from_interaction_def Let_def)
  have "st_session_history p' = Some (keep_last_100 (old @ [pkg_session_entry now query ?qt]))"
    using assms n r c cd l ld old
    by (auto simp: pkg_update_profile_from_interaction_def Let_def)
  then show ?thesis
    using old h3 by auto
qed

lemma update_then_return_Inr:
  "update_then_return mk now query response p = (Inr r, p') \<Longrightarrow>
     pkg_update_profile_from_interaction mk now query response p = (Done, p')"
  by (auto simp: update_then_return_def split: prod.splits outcome.splits)

lemma exception_handler_Inr:
  "exception_handler mk now query p = (Inr r, p') \<Longrightarrow>
     \<exists>response. pkg_update_profile_from_interaction mk now query response p = (Done, p')"
  by (auto simp: exception_handler_def split: sum.splits dest: update_then_return_Inr)

lemma pkg_process_query_Inr:
  assumes "pkg_process_query mk env query p = (Inr r, p')"
  shows "\<exists>response p0. pkg_update_profile_from_interaction mk (env_now env) query response p0 = (Done, p')"
  using assms
  by (auto simp: pkg_process_query_def
      split: if_splits chain_result.splits option.splits prod.splits outcome.splits sum.splits
      dest: update_then_return_Inr)
    (blast dest: exception_handler_Inr)+

lemma pkg_session_history_capped:
  assumes "fst (pkg_process_query mk env query p) = Inr r"
  shows "length (stored_history (snd (pkg_process_query mk env query p))) \<le> 100
         \<and> (\<exists>qt. last (stored_history (snd (pkg_process_query mk env query p)))
                 = pkg_session_entry (env_now env) query qt)"
proof -
  obtain p' where "pkg_process_query mk env query p = (Inr r, p')"
    using assms by (cases "pkg_process_query mk env query p") simp
  then obtain response p0 where
    "pkg_update_profile_from_interaction mk (env_now env) query response p0 = (Done, p')"
    and res: "snd (pkg_process_query mk env query p) = p'"
    using pkg_process_query_Inr by fastforce
  then obtain qt old where
    "st_session_history p' = Some (keep_last_100 (old @ [pkg_session_entry (env_now env) query qt]))"
    using pkg_update_done_history by blast
  then show ?thesis
    using keep_last_100_snoc [of old "pkg_session_entry (env_now env) query qt"] res
    by (auto simp: stored_history_def)
qed

lemma pkg_reset_topic_feedback:
  "st_feedback (snd (pkg_reset_topic tp p)) = st_feedback p"
  by (simp add: pkg_reset_topic_def Let_def split: option.splits)

lemma pkg_feedback_capped:
  assumes "st_feedback p = Some entries"
  shows "\<exists>entry. stored_feedback_entries (snd (pkg_provide_feedback mk now query was_helpful fb p))
           = keep_last_100 (entries @ [entry])
         \<and> length (stored_feedback_entries (snd (pkg_provide_feedback mk now query was_helpful fb p))) \<le> 100"
proof -
  let ?e = "[(''timestamp'', JStr now), (''query'', JStr query),
             (''was_helpful'', JBool was_helpful), (''feedback_text'', feedback_text fb)]"
  let ?p1 = "p\<lparr>st_feedback := Some (keep_last_100 (entries @ [?e]))\<rparr>"
  have "st_feedback (snd (pkg_provide_feedback mk now query was_helpful fb p))
        = Some (keep_last_100 (entries @ [?e]))"
    using assms pkg_reset_topic_feedback [of "pkg_infer_topic query" ?p1]
    by (auto simp: pkg_provide_feedback_def Let_def split: prod.splits outcome.splits)
  then show ?thesis
    by (auto simp: stored_feedback_entries_def length_keep_last_100)
qed

section \<open>Classification fall-backs\<close>

text \<open>
  \<^verbatim>\<open>process_query\<close> of personalization\_agent.py returns a value for every stored
  profile, also one that lacks keys, since all of its body is inside a \<^verbatim>\<open>try\<close> whose
  handler reads the name only, with a default.
\<close>

lemma process_query_stored_never_raises:
  "\<exists>r. fst (process_query_stored env query p) = Inr r"
  by (auto simp: process_query_stored_def
      split: chain_result.splits option.splits prod.splits outcome.splits sum.splits)

text \<open>
  On the stored form of a profile record the stored-profile functions do what the
  functions on the record do.
\<close>

lemma stored_of_fields [simp]:
  "st_name (stored_of p) = name p"
  "st_interactions_count (stored_of p) = Some (interactions_count p)"
  "st_skill_level (stored_of p) = Some (skill_level p)"
  "st_preferred_learning_styles (stored_of p) = Some (preferred_learning_styles p)"
  "st_interaction_types (stored_of p) = interaction_types p"
  "st_session_history (stored_of p) = Some (session_history p)"
  by (simp_all add: stored_of_def)

lemma update_learning_styles_refines:
  "update_learning_styles_stored r (stored_of p)
     = (fst (update_learning_styles r p), stored_of (snd (update_learning_styles r p)))"
  by (simp add: update_learning_styles_stored_def update_learning_styles_def stored_of_def
      split: option.splits)

lemma update_skill_level_refines:
  "update_skill_level_stored r (stored_of p) = (Done, stored_of (update_skill_level r p))"
  by (simp add: update_skill_level_stored_def update_skill_level_def promote_beginner_def
      stored_of_def Let_def)

lemma count_interaction_type_refines:
  "count_interaction_type_stored qt (stored_of p) = stored_of (count_interaction_type qt p)"
  by (simp add: count_interaction_type_stored_def count_interaction_type_def stored_of_def Let_def)

lemma stored_of_count:
  "(stored_of p)\<lparr>st_interactions_count := Some n\<rparr> = stored_of (p\<lparr>interactions_count := n\<rparr>)"
  by (simp add: stored_of_def)

lemma stored_of_history:
  "(stored_of p)\<lparr>st_session_history := Some h\<rparr> = stored_of (p\<lparr>session_history := h\<rparr>)"
  by (simp add: stored_of_def)

lemma update_profile_refines:
  "update_profile_from_interaction_stored now query response (stored_of p)
     = (fst (update_profile_from_interaction now query response p),
        stored_of (snd (update_profile_from_interaction now query response p)))"
proof (cases response)
  case (JDict r)
  let ?p1 = "p\<lparr>interactions_count := interactions_count p + 1\<rparr>"
  obtain st p2 where ls: "update_learning_styles r ?p1 = (st, p2)"
    by (cases "update_learning_styles r ?p1")
  then have ls': "update_learning_styles_stored r (stored_of ?p1) = (st, stored_of p2)"
    using update_learning_styles_refines [of r ?p1] by simp
  show ?thesis
    using JDict ls ls'
    by (cases st)
      (simp_all add: update_profile_from_interaction_stored_def update_profile_from_interaction_def
        stored_of_count stored_of_history update_skill_level_refines count_interaction_type_refines
        Let_def)
qed (simp_all add: update_profile_from_interaction_stored_def update_profile_from_interaction_def
      stored_of_count)

lemma display_name_refines: "display_name_stored (stored_of p) = display_name p"
  by (simp add: display_name_stored_def display_name_def)

lemma exception_fallback_refines: "exception_fallback_stored query (stored_of p) = exception_fallback query p"
  by (simp add: exception_fallback_stored_def exception_fallback_def display_name_refines)

lemma decode_error_fallback_refines:
  "decode_error_fallback_stored ex query (stored_of p) = Inr (decode_error_fallback ex query p)"
  by (simp add: decode_error_fallback_stored_def decode_error_fallback_def display_name_refines Let_def)

lemma process_query_refines:
  "process_query_stored env query (stored_of p)
     = (fst (process_query env query p), stored_of (snd (process_query env query p)))"
  by (simp add: process_query_stored_def process_query_def update_profile_refines
      exception_fallback_refines decode_error_fallback_refines
      split: chain_result.splits option.splits prod.splits outcome.splits)

lemma lower_explain_recursion: "lower ''explain recursion'' = ''explain recursion''"
  by (simp add: lower_def lower_char_def ascii_uppercase_def ascii_lowercase_def)

lemma explain_recursion_keywords:
  "\<not> is_greeting_or_casual ''explain recursion''
   \<and> \<not> is_non_educational ''explain recursion''
   \<and> \<not> pkg_is_greeting_or_casual ''explain recursion''
   \<and> \<not> pkg_is_non_educational ''explain recursion''"
  by (simp add: is_greeting_or_casual_def greetings_def is_non_educational_def
      non_educational_keywords_def pkg_is_greeting_or_casual_def pkg_greetings_def
      pkg_is_non_educational_def pkg_non_educational_def lower_explain_recursion)

lemma no_braces_no_slice: "json_slice ''Sorry, no answer'' = None"
  by (simp add: json_slice_def)

text \<open>
  When \<^verbatim>\<open>json.loads\<close> rejects the braces of the reply, the handler of
  \<^verbatim>\<open>JSONDecodeError\<close> answers with the level and the learning styles of the profile.
\<close>

lemma rejected_json_answers_profile_level:
  "\<exists>r. fst (process_query_stored bad_json_env ''explain recursion'' (stored_of advanced_user)) = Inr r
      \<and> field r ''query_type'' = Some (JStr ''educational'')
      \<and> field r ''level'' = Some (JStr ''advanced'')
      \<and> field r ''learning_style'' = Some (JList [JStr ''auditory''])
      \<and> field r ''tailored_query'' = Some (JStr ''explain recursion'')"
proof -
  have "json_slice ''{level: }'' = Some ''{level: }''"
    by (simp add: json_slice_def rfind_char_def)
  then show ?thesis
    using explain_recursion_keywords
    by (simp add: process_query_stored_def bad_json_env_def decode_error_fallback_stored_def
        advanced_user_def new_profile_def field_def Let_def)
qed

text \<open>
  C5 on the code of personalization\_agent.py. The profile says advanced and auditory and
  the query is "explain recursion". When the chain's reply holds no brace, or the chain
  raises, \<^verbatim>\<open>process_query\<close> returns an educational result whose level is "beginner" and
  whose learning styles are visual and textual: the \<^verbatim>\<open>ValueError\<close> raised for a reply
  without a JSON object is no \<^verbatim>\<open>JSONDecodeError\<close>, so the handler of \<^verbatim>\<open>except Exception\<close>
  answers, and it does not read the profile's level or styles.
\<close>

theorem unparseable_reply_answers_beginner:
  "st_skill_level (stored_of advanced_user) = Some ''advanced''
   \<and> st_preferred_learning_styles (stored_of advanced_user) = Some [JStr ''auditory'']
   \<and> json_slice ''Sorry, no answer'' = None
   \<and> fst (process_query_stored
            \<lparr>env_loads = loads, env_extract_topic = extract_topic,
             env_chain = ChainReturns ''Sorry, no answer'', env_now = now\<rparr>
            ''explain recursion'' (stored_of advanced_user))
       = Inr (JDict
               [(''query_type'', JStr ''educational''),
                (''level'', JStr ''beginner''),
                (''learning_style'', JList [JStr ''visual'', JStr ''textual'']),
                (''emphasis'', JList [JStr ''core concepts'']),
                (''knowledge_gaps'', JList []),
                (''connections'', JList []),
                (''tailored_instruction'',
                   JStr ''Explain the concept of explain recursion in a clear, straightforward manner.''),
                (''tailored_query'', JStr ''explain recursion''),
                (''personalized_greeting'', JStr ''Hi User! Let's explore explain recursion together!'')])
   \<and> fst (process_query_stored
            \<lparr>env_loads = loads, env_extract_topic = extract_topic,
             env_chain = ChainRaises, env_now = now\<rparr>
            ''explain recursion'' (stored_of advanced_user))
       = fst (process_query_stored
            \<lparr>env_loads = loads, env_extract_topic = extract_topic,
             env_chain = ChainReturns ''Sorry, no answer'', env_now = now\<rparr>
            ''explain recursion'' (stored_of advanced_user))"
  using explain_recursion_keywords
  by (simp add: process_query_stored_def no_braces_no_slice exception_fallback_stored_def
      display_name_stored_def visual_textual_def advanced_user_def new_profile_def stored_of_def)

text \<open>
  \<^verbatim>\<open>process_query\<close> of personalization/agent.py builds both of its fall-backs from the
  profile. On a stored profile that holds every key it reads, and with a profile
  directory that can be created, it returns a value; for a query outside its two keyword
  lists, an exception of the chain or a reply that \<^verbatim>\<open>json.loads\<close> rejects gives an
  educational result with the level and the learning styles of the profile and the query
  as it came.
\<close>

lemma pkg_count_complete:
  "pkg_complete p \<Longrightarrow> pkg_complete (snd (pkg_count_interaction_type qt p))"
  by (auto simp: pkg_count_interaction_type_def pkg_complete_def split: option.splits)

lemma pkg_knowledge_complete:
  "pkg_complete p \<Longrightarrow> pkg_complete (snd (pkg_update_knowledge now tp p))"
  by (auto simp: pkg_update_knowledge_def pkg_complete_def Let_def split: option.splits)

lemma pkg_knowledge_done:
  "pkg_complete p \<Longrightarrow> fst (pkg_update_knowledge now tp p) = Done"
  by (auto simp: pkg_update_knowledge_def pkg_complete_def Let_def split: option.splits)

lemma pkg_count_done:
  "pkg_complete p \<Longrightarrow> json_hashable qt \<Longrightarrow> fst (pkg_count_interaction_type qt p) = Done"
  by (auto simp: pkg_count_interaction_type_def pkg_complete_def split: option.splits)

lemma pkg_update_complete:
  assumes "pkg_complete p"
  shows "pkg_complete (snd (pkg_update_profile_from_interaction mk now query response p))"
proof -
  obtain n where n: "st_interactions_count p = Some n"
    using assms by (auto simp: pkg_complete_def)
  let ?p1 = "p\<lparr>st_interactions_count := Some (n + 1)\<rparr>"
  have c1: "pkg_complete ?p1"
    using assms by (simp add: pkg_complete_def)
  show ?thesis
  proof (cases response)
    case (JDict r)
    let ?qt = "response_get r ''query_type'' (JStr ''educational'')"
    obtain c p2 where c: "pkg_count_interaction_type ?qt ?p1 = (c, p2)"
      by (cases "pkg_count_interaction_type ?qt ?p1")
    have c2: "pkg_complete p2"
      using pkg_count_complete [OF c1, of ?qt] c by simp
    obtain l p3 where l: "(if ?qt = JStr ''educational''
                           then pkg_update_knowledge now (pkg_infer_topic query) p2 else (Done, p2)) = (l, p3)"
      by (cases "(if ?qt = JStr ''educational''
                  then pkg_update_knowledge now (pkg_infer_topic query) p2 else (Done, p2))")
    have c3: "pkg_complete p3"
      using pkg_knowledge_complete [OF c2, of now "pkg_infer_topic query"] l c2
      by (auto split: if_splits)
    obtain h where h: "st_session_history p3 = Some h"
      using c3 by (auto simp: pkg_complete_def)
    have "pkg_complete (p3\<lparr>st_session_history := Some (keep_last_100 (h @ [pkg_session_entry now query ?qt]))\<rparr>)"
      using c3 by (simp add: pkg_complete_def)
    then show ?thesis
      using JDict n c c2 l c3 h
      by (cases c; cases l) (simp_all add: pkg_update_profile_from_interaction_def Let_def)
  qed (use n c1 in \<open>simp_all add: pkg_update_profile_from_interaction_def\<close>)
qed

lemma pkg_update_done:
  assumes "pkg_complete p" and "json_hashable (response_get r ''query_type'' (JStr ''educational''))"
  shows "\<exists>p'. pkg_update_profile_from_interaction True now query (JDict r) p = (Done, p')"
proof -
  obtain n where n: "st_interactions_count p = Some n"
    using assms by (auto simp: pkg_complete_def)
  let ?p1 = "p\<lparr>st_interactions_count := Some (n + 1)\<rparr>"
  have c1: "pkg_complete ?p1"
    using assms by (simp add: pkg_complete_def)
  let ?qt = "response_get r ''query_type'' (JStr ''educational'')"
  obtain p2 where c: "pkg_count_interaction_type ?qt ?p1 = (Done, p2)"
    using pkg_count_done [OF c1 assms(2)] by (cases "pkg_count_interaction_type ?qt ?p1") simp
  have c2: "pkg_complete p2"
    using pkg_count_complete [OF c1, of ?qt] c by simp
  have "fst (if ?qt = JStr ''educational''
             then pkg_update_knowledge now (pkg_infer_topic query) p2 else (Done, p2)) = Done"
    using pkg_knowledge_done [OF c2, of now "pkg_infer_topic query"] by simp
  then obtain p3 where l: "(if ?qt = JStr ''educational''
                       then pkg_update_knowledge now (pkg_infer_topic query) p2 else (Done, p2)) = (Done, p3)"
    by (cases "(if ?qt = JStr ''educational''
                then pkg_update_knowledge now (pkg_infer_topic query) p2 else (Done, p2))") simp
  have c3: "pkg_complete p3"
    using pkg_knowledge_complete [OF c2, of now "pkg_infer_topic query"] l c2
    by (auto split: if_splits)
  obtain h where h: "st_session_history p3 = Some h"
    using c3 by (auto simp: pkg_complete_def)
  show ?thesis
    using n c l h
    by (simp add: pkg_update_profile_from_interaction_def Let_def pkg_save_user_profile_def)
qed

lemma basic_response_complete:
  assumes "pkg_complete p"
  shows "\<exists>level styles. st_skill_level p = Some level \<and> st_preferred_learning_styles p = Some styles
           \<and> basic_response query p =
               Inr (JDict [(''query_type'', JStr ''educational''),
                           (''level'', JStr level),
                           (''learning_style'', JList styles),
                           (''tailored_instruction'', JStr ''Explain this concept clearly with examples.''),
                           (''tailored_query'', JStr query)])"
  using assms by (auto simp: pkg_complete_def basic_response_def)

lemma exception_handler_returns:
  assumes "pkg_complete p"
  shows "\<exists>res. basic_response query p = Inr res
           \<and> fst (exception_handler True now query p) = Inr res"
proof -
  obtain level styles where b: "basic_response query p =
      Inr (JDict [(''query_type'', JStr ''educational''),
                  (''level'', JStr level),
                  (''learning_style'', JList styles),
                  (''tailored_instruction'', JStr ''Explain this concept clearly with examples.''),
                  (''tailored_query'', JStr query)])"
    using basic_response_complete [OF assms] by blast
  obtain p' where "pkg_update_profile_from_interaction True now query
      (JDict [(''query_type'', JStr ''educational''),
              (''level'', JStr level),
              (''learning_style'', JList styles),
              (''tailored_instruction'', JStr ''Explain this concept clearly with examples.''),
              (''tailored_query'', JStr query)]) p = (Done, p')"
    using pkg_update_done [OF assms, of _ now query] by (fastforce simp: response_get_def)
  then show ?thesis
    using b by (simp add: exception_handler_def update_then_return_def)
qed

lemma update_then_return_fixed:
  assumes "pkg_complete p"
    and "json_hashable (response_get r ''query_type'' (JStr ''educational''))"
  shows "fst (update_then_return True now query (JDict r) p) = Inr (JDict r)"
proof -
  obtain p' where "pkg_update_profile_from_interaction True now query (JDict r) p = (Done, p')"
    using pkg_update_done [OF assms] by blast
  then show ?thesis
    by (simp add: update_then_return_def)
qed

lemma pkg_process_query_complete:
  assumes "pkg_complete p"
  shows "\<exists>r. fst (pkg_process_query True env query p) = Inr r"
proof (cases "pkg_is_greeting_or_casual query \<or> pkg_is_non_educational query")
  case True
  have "fst (update_then_return True (env_now env) query pkg_greeting_response p) = Inr pkg_greeting_response"
    unfolding pkg_greeting_response_def
    by (rule update_then_return_fixed [OF assms]) (simp add: response_get_def)
  moreover have "fst (update_then_return True (env_now env) query pkg_non_educational_response p)
                = Inr pkg_non_educational_response"
    unfolding pkg_non_educational_response_def
    by (rule update_then_return_fixed [OF assms]) (simp add: response_get_def)
  ultimately show ?thesis
    using True by (auto simp: pkg_process_query_def)
next
  case False
  obtain res where res: "basic_response query p = Inr res"
    "fst (exception_handler True (env_now env) query p) = Inr res"
    using exception_handler_returns [OF assms] by blast
  show ?thesis
  proof (cases "env_chain env")
    case ChainRaises
    then show ?thesis
      using False res by (simp add: pkg_process_query_def)
  next
    case (ChainReturns chain_response)
    show ?thesis
    proof (cases "env_loads env chain_response")
      case None
      obtain st p' where u:
        "pkg_update_profile_from_interaction True (env_now env) query res p = (st, p')"
        by (cases "pkg_update_profile_from_interaction True (env_now env) query res p")
      have "pkg_complete p'"
        using pkg_update_complete [OF assms, of True "env_now env" query res] u by simp
      then obtain res' where "fst (exception_handler True (env_now env) query p') = Inr res'"
        using exception_handler_returns by blast
      then show ?thesis
        using False ChainReturns None res u
        by (cases st) (simp_all add: pkg_process_query_def)
    next
      case (Some parsed)
      obtain st p' where u:
        "pkg_update_profile_from_interaction True (env_now env) query parsed p = (st, p')"
        by (cases "pkg_update_profile_from_interaction True (env_now env) query parsed p")
      have "pkg_complete p'"
        using pkg_update_complete [OF assms, of True "env_now env" query parsed] u by simp
      then obtain res' where "fst (exception_handler True (env_now env) query p') = Inr res'"
        using exception_handler_returns by blast
      then show ?thesis
        using False ChainReturns Some u
        by (cases st) (simp_all add: pkg_process_query_def)
    qed
  qed
qed

lemma pkg_process_query_fallback:
  assumes "pkg_complete p"
    and "\<not> pkg_is_greeting_or_casual query" and "\<not> pkg_is_non_educational query"
    and "env_chain env = ChainRaises \<or> (env_chain env = ChainReturns reply \<and> env_loads env reply = None)"
  shows "\<exists>level styles. st_skill_level p = Some level \<and> st_preferred_learning_styles p = Some styles
           \<and> fst (pkg_process_query True env query p) =
               Inr (JDict [(''query_type'', JStr ''educational''),
                           (''level'', JStr level),
                           (''learning_style'', JList styles),
                           (''tailored_instruction'', JStr ''Explain this concept clearly with examples.''),
                           (''tailored_query'', JStr query)])"
proof -
  obtain level styles where ls: "st_skill_level p = Some level" "st_preferred_learning_styles p = Some styles"
    and b: "basic_response query p =
      Inr (JDict [(''query_type'', JStr ''educational''),
                  (''level'', JStr level),
                  (''learning_style'', JList styles),
                  (''tailored_instruction'', JStr ''Explain this concept clearly with examples.''),
                  (''tailored_query'', JStr query)])"
    using basic_response_complete [OF assms(1)] by blast
  let ?res = "JDict [(''query_type'', JStr ''educational''),
                  (''level'', JStr level),
                  (''learning_style'', JList styles),
                  (''tailored_instruction'', JStr ''Explain this concept clearly with examples.''),
                  (''tailored_query'', JStr query)]"
  obtain p' where u: "pkg_update_profile_from_interaction True (env_now env) query ?res p = (Done, p')"
    using pkg_update_done [OF assms(1), of _ "env_now env" query] by (fastforce simp: response_get_def)
  have "fst (pkg_process_query True env query p) = Inr ?res"
    using assms(2-4) b u
    by (auto simp: pkg_process_query_def exception_handler_def update_then_return_def)
  then show ?thesis
    using ls by simp
qed

text \<open>
  Its two keyword checks and their profile update run before the \<^verbatim>\<open>try\<close>. For a greeting,
  a stored profile without \<^verbatim>\<open>session_history\<close>, or a profile directory that cannot be
  created, makes the call end in an exception.
\<close>

lemma pkg_update_needs_history:
  "st_session_history p = None \<Longrightarrow>
     fst (pkg_update_profile_from_interaction mk now query response p) \<noteq> Done"
  using pkg_update_done_history [of mk now query response p]
  by (cases "pkg_update_profile_from_interaction mk now query response p") auto

lemma pkg_process_query_raises:
  assumes "pkg_is_greeting_or_casual query" and "st_session_history p = None \<or> \<not> mk"
  shows "\<exists>e. fst (pkg_process_query mk env query p) = Inl e"
proof -
  obtain st p' where u:
    "pkg_update_profile_from_interaction mk (env_now env) query pkg_greeting_response p = (st, p')"
    by (cases "pkg_update_profile_from_interaction mk (env_now env) query pkg_greeting_response p")
  have "st \<noteq> Done"
  proof (cases mk)
    case True
    then have "st_session_history p = None"
      using assms(2) by simp
    then show ?thesis
      using pkg_update_needs_history [of p mk "env_now env" query pkg_greeting_response] u by simp
  next
    case False
    then show ?thesis
      using u
      by (auto simp: pkg_update_profile_from_interaction_def Let_def pkg_save_user_profile_def
          pkg_greeting_response_def
          split: option.splits prod.splits outcome.splits)
  qed
  then show ?thesis
    using assms(1) u by (cases st) (simp_all add: pkg_process_query_def update_then_return_def)
qed

lemma pkg_hello_is_greeting: "pkg_is_greeting_or_casual ''hello''"
  by (simp add: pkg_is_greeting_or_casual_def pkg_greetings_def lower_hello)

lemma pkg_hello_raises:
  "fst (pkg_process_query True env ''hello'' ((stored_of new_profile)\<lparr>st_session_history := None\<rparr>))
     = Inl KeyError
   \<and> fst (pkg_process_query False env ''hello'' (stored_of new_profile)) = Inl OSError"
  by (simp add: pkg_process_query_def pkg_hello_is_greeting update_then_return_def
      pkg_update_profile_from_interaction_def pkg_greeting_response_def response_get_def
      pkg_count_interaction_type_def pkg_save_user_profile_def json_hashable.simps
      stored_of_def new_profile_def Let_def)

end
